theory Spec2Isabelle
  imports Main "HOL-Library.Sublist"
begin

section \<open>The system-upgrade plugin: data model\<close>

text \<open>
  The plugin keeps its state between runs in a JSON file and talks to the next boot
  through a symbolic link and a flag file. The model is a shallow embedding of
  \<^verbatim>\<open>system_upgrade.py\<close>: every method that touches the state object or the
  file system is a function on an explicit \<open>world\<close>, and every exception is a value.

  \<^item> The values stored in the state are the ones the program stores: strings, booleans
    and \<^verbatim>\<open>None\<close>. \<open>State._data\<close> is a dict of sections, each a dict of options.
  \<^item> The file system is a map from nodes to what stands there (a directory or a
    regular file). A node is named by its canonical absolute path: no empty
    component, no \<^verbatim>\<open>.\<close> or \<^verbatim>\<open>..\<close>, no slash at the end (\<open>canonical\<close>). The constant
    paths of the program are canonical. A path that the user gives or that the state
    records is looked up as it is written, so the model follows the runs in which
    these paths are canonical too. The root directory is not in the map:
    \<^verbatim>\<open>os.makedirs\<close> starts below it.
  \<^item> The only symbolic link is the one at \<^verbatim>\<open>/system-update\<close>; what stands at that
    path is the field \<open>marker\<close> of the world.
  \<^item> A regular file holds either a JSON document (the value \<^verbatim>\<open>json.load\<close> decodes
    it to, which is the value \<^verbatim>\<open>json.dump\<close> wrote) or text that is not a JSON
    document, on which \<^verbatim>\<open>json.load\<close> raises \<^verbatim>\<open>ValueError\<close>.
  \<^item> The package manager, plymouth and systemctl are external: the record \<open>ext\<close> holds
    what each of them answers in the run at hand.
\<close>

datatype jval = JNull | JBool bool | JStr string

type_synonym jsection = "string \<rightharpoonup> jval"
type_synonym jdata = "string \<rightharpoonup> jsection"

datatype content = Json jdata | Text string

datatype node = Dir | File content

type_synonym filesystem = "string \<rightharpoonup> node"

datatype marker = NoMarker | Link string | PlainFile | Directory

datatype error =
    IOError
  | OSError
  | ValueError
  | TypeError
  | CliError string
  | DnfError string
  | SystemExit nat
  | CalledProcessError

datatype action = Download | Clean | Reboot | Upgrade

record world =
  data :: jdata
  files :: filesystem
  marker :: marker
  logged :: "string list"

record opts =
  action :: action
  datadir :: string
  distro_sync :: bool

record ext =
  basecmd :: string
  detected_releasever :: "string option"
  conf_releasever :: "string option"
  repo_checks :: "error option"
  marking :: "error option"
  add_rpms :: "error option"
  transaction :: "error + string list"
  plymouth :: "error option"
  systemctl_reboot :: "error option"

type_synonym 'a result = "(error + 'a) \<times> world"

subsection \<open>Constants and messages\<close>

definition apostrophe :: string where
  "apostrophe = [CHR 0x27]"

definition newline :: string where
  "newline = [CHR 0x0A]"

definition os_path_join :: "string \<Rightarrow> string \<Rightarrow> string" where
  "os_path_join d n =
     (if d = [] then n
      else if last d = CHR ''/'' then d @ n
      else d @ ''/'' @ n)"

definition DEFAULT_DATADIR :: string where
  "DEFAULT_DATADIR = ''/var/lib/dnf/system-upgrade''"

definition MAGIC_SYMLINK :: string where
  "MAGIC_SYMLINK = ''/system-update''"

definition FLAG_NAME :: string where
  "FLAG_NAME = ''.dnf-system-upgrade''"

definition SYSTEMD_FLAG_FILE :: string where
  "SYSTEMD_FLAG_FILE = os_path_join MAGIC_SYMLINK FLAG_NAME"

definition statefile :: string where
  "statefile = ''/var/lib/dnf/system-upgrade.json''"

definition statedir :: string where
  "statedir = ''/var/lib/dnf''"

definition NO_KERNEL_MSG :: string where
  "NO_KERNEL_MSG = ''No new kernel packages were found.''"

definition RELEASEVER_MSG :: string where
  "RELEASEVER_MSG = ''Need a --releasever greater than the current system version.''"

definition DOWNLOAD_FINISHED_MSG :: "string \<Rightarrow> string" where
  "DOWNLOAD_FINISHED_MSG cmd =
     ''Download complete! Use '' @ apostrophe @ ''dnf '' @ cmd @ '' reboot'' @ apostrophe
       @ '' to start the upgrade.''"

definition DATADIR_MSG :: string where
  "DATADIR_MSG = ''--datadir: File exists''"

definition NOT_READY_MSG :: string where
  "NOT_READY_MSG = ''system is not ready for upgrade''"

definition SCHEDULED_MSG :: string where
  "SCHEDULED_MSG = ''upgrade is already scheduled''"

definition USE_REBOOT_MSG :: "string \<Rightarrow> string" where
  "USE_REBOOT_MSG cmd =
     ''use '' @ apostrophe @ cmd @ '' reboot'' @ apostrophe @ '' to begin the upgrade''"

definition OTHER_TOOL_MSG :: string where
  "OTHER_TOOL_MSG = ''another upgrade tool is running. exiting quietly.''"

definition CLEANING_MSG :: string where
  "CLEANING_MSG = ''Cleaning up downloaded data...''"

subsection \<open>Python values\<close>

text \<open>\<^verbatim>\<open>"%s" % v\<close>, and the truth value of \<open>v\<close> in a condition.\<close>

fun py_str :: "jval \<Rightarrow> string" where
  "py_str JNull = ''None''"
| "py_str (JBool True) = ''True''"
| "py_str (JBool False) = ''False''"
| "py_str (JStr s) = s"

fun truthy :: "jval \<Rightarrow> bool" where
  "truthy JNull = False"
| "truthy (JBool b) = b"
| "truthy (JStr s) = (s \<noteq> [])"

fun of_opt :: "string option \<Rightarrow> jval" where
  "of_opt None = JNull"
| "of_opt (Some s) = JStr s"

definition startswith :: "string \<Rightarrow> string \<Rightarrow> bool" where
  "startswith s p = prefix p s"

subsection \<open>The file system\<close>

definition os_path_exists :: "filesystem \<Rightarrow> string \<Rightarrow> bool" where
  "os_path_exists fs p = (fs p \<noteq> None)"

definition os_path_isdir :: "filesystem \<Rightarrow> string \<Rightarrow> bool" where
  "os_path_isdir fs p = (fs p = Some Dir)"

text \<open>\<open>under d p\<close>: the path \<open>p\<close> lies inside the directory \<open>d\<close>, at any depth.\<close>

definition under :: "string \<Rightarrow> string \<Rightarrow> bool" where
  "under d p =
     (let dd = os_path_join d [] in d \<noteq> [] \<and> length dd < length p \<and> take (length dd) p = dd)"

text \<open>
  The directories \<^verbatim>\<open>os.makedirs\<close> goes through: every ancestor of the path below
  the root, then the path itself.
\<close>

fun chain_from :: "string \<Rightarrow> string \<Rightarrow> string list" where
  "chain_from pre [] = (if pre = [] then [] else [pre])"
| "chain_from pre (c # cs) =
     (if c = CHR ''/'' \<and> pre \<noteq> [] then pre # chain_from (pre @ [c]) cs
      else chain_from (pre @ [c]) cs)"

definition path_chain :: "string \<Rightarrow> string list" where
  "path_chain p = chain_from [] p"

text \<open>
  \<^verbatim>\<open>dnf.util.ensure_dir\<close>: \<^verbatim>\<open>os.makedirs\<close>, where an error is raised again unless
  it says that the path exists and the path is a directory. A missing directory of
  the chain is made; a regular file in the chain is an \<^verbatim>\<open>OSError\<close>. The directories
  made before the error stay. The program calls it with two constant paths only, the
  directory of the state file and the default data directory.
\<close>

fun mkdirs :: "string list \<Rightarrow> filesystem \<Rightarrow> (error + unit) \<times> filesystem" where
  "mkdirs [] fs = (Inr (), fs)"
| "mkdirs (d # ds) fs =
     (case fs d of
        None \<Rightarrow> mkdirs ds (fs(d \<mapsto> Dir))
      | Some Dir \<Rightarrow> mkdirs ds fs
      | Some (File c) \<Rightarrow> (Inl OSError, fs))"

definition ensure_dir :: "string \<Rightarrow> filesystem \<Rightarrow> (error + unit) \<times> filesystem" where
  "ensure_dir p fs = mkdirs (path_chain p) fs"

text \<open>
  \<^verbatim>\<open>open(p, 'w')\<close> on a path whose directory exists: a directory at \<open>p\<close> is an
  \<^verbatim>\<open>IOError\<close>, anything else is replaced by an empty file.
\<close>

definition open_w :: "string \<Rightarrow> filesystem \<Rightarrow> (error + unit) \<times> filesystem" where
  "open_w p fs =
     (case fs p of
        Some Dir \<Rightarrow> (Inl IOError, fs)
      | _ \<Rightarrow> (Inr (), fs(p \<mapsto> File (Text []))))"




text \<open>
  \<open>entry_of d p\<close>, for a path \<open>p\<close> inside the directory \<open>d\<close>: the entry of \<open>d\<close> that \<open>p\<close>
  is, or lies in.
\<close>

definition entry_of :: "string \<Rightarrow> string \<Rightarrow> string" where
  "entry_of d p =
     (let dd = os_path_join d []
      in dd @ takeWhile (\<lambda>c. c \<noteq> CHR ''/'') (drop (length dd) p))"

text \<open>
  \<^verbatim>\<open>dnf.util.clear_dir\<close>: for every entry that \<^verbatim>\<open>os.listdir\<close> gives, \<^verbatim>\<open>rm_rf\<close> of
  the entry, which is \<^verbatim>\<open>shutil.rmtree\<close> with every \<^verbatim>\<open>OSError\<close> swallowed. An entry
  that is a directory goes with all that is below it. \<^verbatim>\<open>rmtree\<close> of a regular file
  raises, so a regular file that is an entry of the directory stays. Listing a path
  that is not a directory raises \<^verbatim>\<open>OSError\<close>, which nothing catches.
\<close>

definition clear_dir :: "string \<Rightarrow> filesystem \<Rightarrow> (error + unit) \<times> filesystem" where
  "clear_dir d fs =
     (if fs d = Some Dir then
        (Inr (), (\<lambda>p. if under d p \<and> fs (entry_of d p) = Some Dir then None else fs p))
      else (Inl OSError, fs))"

section \<open>The State object\<close>

definition getprop :: "string \<Rightarrow> string \<Rightarrow> jdata \<Rightarrow> jval \<times> jdata" where
  "getprop sec opt d =
     (let s = (case d sec of None \<Rightarrow> Map.empty | Some s \<Rightarrow> s)
      in (case s opt of None \<Rightarrow> JNull | Some v \<Rightarrow> v, d(sec \<mapsto> s)))"

definition setprop :: "string \<Rightarrow> string \<Rightarrow> jval \<Rightarrow> jdata \<Rightarrow> jdata" where
  "setprop sec opt v d =
     (let s = (case d sec of None \<Rightarrow> Map.empty | Some s \<Rightarrow> s)
      in d(sec \<mapsto> s(opt \<mapsto> v)))"

text \<open>
  \<open>State._read\<close>: \<^verbatim>\<open>json.load(open(statefile))\<close>, with \<^verbatim>\<open>IOError\<close> caught. A missing
  file and a directory at the path are both an \<^verbatim>\<open>IOError\<close> of \<^verbatim>\<open>open\<close>.
\<close>

definition State_read :: "filesystem \<Rightarrow> error + jdata" where
  "State_read fs =
     (case fs statefile of
        None \<Rightarrow> Inr Map.empty
      | Some Dir \<Rightarrow> Inr Map.empty
      | Some (File (Json d)) \<Rightarrow> Inr d
      | Some (File (Text s)) \<Rightarrow> Inl ValueError)"

text \<open>\<open>State.__init__\<close>, as \<open>SystemUpgradeCommand.__init__\<close> calls it.\<close>

definition State_init :: "filesystem \<Rightarrow> marker \<Rightarrow> unit result" where
  "State_init fs m =
     (case State_read fs of
        Inl e \<Rightarrow> (Inl e, \<lparr>data = Map.empty, files = fs, marker = m, logged = []\<rparr>)
      | Inr d \<Rightarrow> (Inr (), \<lparr>data = d, files = fs, marker = m, logged = []\<rparr>))"

text \<open>
  \<open>State.write\<close>: make the directory of the state file, open the file for writing
  (which empties it), write the document.
\<close>

definition json_dump :: "jdata \<Rightarrow> string \<Rightarrow> filesystem \<Rightarrow> filesystem" where
  "json_dump d p fs = fs(p \<mapsto> File (Json d))"

definition State_write :: "jdata \<Rightarrow> filesystem \<Rightarrow> (error + unit) \<times> filesystem" where
  "State_write d fs =
     (case ensure_dir statedir fs of
        (Inl e, fs1) \<Rightarrow> (Inl e, fs1)
      | (Inr u, fs1) \<Rightarrow>
          (case open_w statefile fs1 of
             (Inl e, fs2) \<Rightarrow> (Inl e, fs2)
           | (Inr u, fs2) \<Rightarrow> (Inr (), json_dump d statefile fs2)))"

text \<open>
  The states of the file system that \<open>State.write\<close> goes through, in order: an
  interruption leaves one of them on the disk.
\<close>

definition State_write_trace :: "jdata \<Rightarrow> filesystem \<Rightarrow> filesystem list" where
  "State_write_trace d fs =
     (case ensure_dir statedir fs of
        (Inl e, fs1) \<Rightarrow> [fs, fs1]
      | (Inr u, fs1) \<Rightarrow>
          (case open_w statefile fs1 of
             (Inl e, fs2) \<Rightarrow> [fs, fs1, fs2]
           | (Inr u, fs2) \<Rightarrow> [fs, fs1, fs2, json_dump d statefile fs2]))"

text \<open>\<open>State.clear\<close>: \<^verbatim>\<open>os.unlink\<close> of a directory is an \<^verbatim>\<open>OSError\<close>.\<close>

definition State_clear :: "world \<Rightarrow> unit result" where
  "State_clear w =
     (if os_path_exists (files w) statefile then
        (if os_path_isdir (files w) statefile then (Inl OSError, w)
         else
           (let w1 = w\<lparr>files := (files w)(statefile := None)\<rparr>
            in case State_read (files w1) of
                 Inl e \<Rightarrow> (Inl e, w1)
               | Inr d \<Rightarrow> (Inr (), w1\<lparr>data := d\<rparr>)))
      else
        (case State_read (files w) of
           Inl e \<Rightarrow> (Inl e, w)
         | Inr d \<Rightarrow> (Inr (), w\<lparr>data := d\<rparr>)))"

text \<open>
  \<^verbatim>\<open>with self.state: body\<close>. \<open>__enter__\<close> returns the object; \<open>__exit__\<close> writes
  when the body raised nothing, and lets the exception of the body through otherwise.
  The body works on the data in memory, which keep what it did in both cases.
\<close>

definition with_state :: "(jdata \<Rightarrow> (error + unit) \<times> jdata) \<Rightarrow> world \<Rightarrow> unit result" where
  "with_state body w =
     (case body (data w) of
        (Inl e, d) \<Rightarrow> (Inl e, w\<lparr>data := d\<rparr>)
      | (Inr u, d) \<Rightarrow>
          (case State_write d (files w) of
             (r, fs) \<Rightarrow> (r, w\<lparr>data := d, files := fs\<rparr>)))"

text \<open>A body that sets fields one after the other, and may raise at its end.\<close>

fun setprops :: "(string \<times> string \<times> jval) list \<Rightarrow> jdata \<Rightarrow> jdata" where
  "setprops [] d = d"
| "setprops ((sec, opt, v) # ms) d = setprops ms (setprop sec opt v d)"

definition mutations :: "(string \<times> string \<times> jval) list \<Rightarrow> error option \<Rightarrow>
    jdata \<Rightarrow> (error + unit) \<times> jdata" where
  "mutations ms raised d =
     (case raised of None \<Rightarrow> (Inr (), setprops ms d) | Some e \<Rightarrow> (Inl e, setprops ms d))"

text \<open>The five properties of the class.\<close>

definition download_status :: "jdata \<Rightarrow> jval \<times> jdata" where
  "download_status = getprop ''download'' ''status''"

definition state_datadir :: "jdata \<Rightarrow> jval \<times> jdata" where
  "state_datadir = getprop ''download'' ''datadir''"

definition state_releasever :: "jdata \<Rightarrow> jval \<times> jdata" where
  "state_releasever = getprop ''download'' ''releasever''"

definition upgrade_status :: "jdata \<Rightarrow> jval \<times> jdata" where
  "upgrade_status = getprop ''upgrade'' ''status''"

definition state_distro_sync :: "jdata \<Rightarrow> jval \<times> jdata" where
  "state_distro_sync = getprop ''upgrade'' ''distro-sync''"

section \<open>Helper functions\<close>

definition reboot :: "ext \<Rightarrow> world \<Rightarrow> unit result" where
  "reboot x w = (case systemctl_reboot x of Some e \<Rightarrow> (Inl e, w) | None \<Rightarrow> (Inr (), w))"

definition checkReleaseVer :: "ext \<Rightarrow> error + unit" where
  "checkReleaseVer x =
     (if detected_releasever x = conf_releasever x then Inl (CliError RELEASEVER_MSG)
      else Inr ())"

definition checkDataDir :: "string \<Rightarrow> filesystem \<Rightarrow> error + unit" where
  "checkDataDir dd fs =
     (if os_path_exists fs dd \<and> \<not> os_path_isdir fs dd then Inl (CliError DATADIR_MSG)
      else Inr ())"

text \<open>
  \<^verbatim>\<open>os.symlink(target, MAGIC_SYMLINK)\<close>: the target must be a string
  (\<^verbatim>\<open>TypeError\<close>) and not empty, and nothing may stand at the path of the link.
\<close>

definition os_symlink :: "jval \<Rightarrow> world \<Rightarrow> unit result" where
  "os_symlink v w =
     (case v of
        JStr t \<Rightarrow>
          (if t = [] \<or> marker w \<noteq> NoMarker then (Inl OSError, w)
           else (Inr (), w\<lparr>marker := Link t\<rparr>))
      | _ \<Rightarrow> (Inl TypeError, w))"

text \<open>
  \<^verbatim>\<open>os.readlink(MAGIC_SYMLINK)\<close>: an \<^verbatim>\<open>OSError\<close> when nothing stands at the path,
  or something that is not a symbolic link.
\<close>

definition os_readlink :: "world \<Rightarrow> error + string" where
  "os_readlink w = (case marker w of Link t \<Rightarrow> Inr t | _ \<Rightarrow> Inl OSError)"

text \<open>
  \<^verbatim>\<open>dnf.yum.misc.unlink_f(MAGIC_SYMLINK)\<close>: \<^verbatim>\<open>os.unlink\<close>, where a missing file is
  no error. A directory cannot be unlinked.
\<close>

definition unlink_f :: "world \<Rightarrow> unit result" where
  "unlink_f w =
     (case marker w of
        Directory \<Rightarrow> (Inl OSError, w)
      | _ \<Rightarrow> (Inr (), w\<lparr>marker := NoMarker\<rparr>))"

text \<open>
  \<^verbatim>\<open>open(SYSTEMD_FLAG_FILE, 'w')\<close>. The path goes through \<^verbatim>\<open>/system-update\<close>: a
  link there leads into its target, which must be a directory. The result is the
  path of the file that was opened.
\<close>

definition open_flag_w :: "world \<Rightarrow> string result" where
  "open_flag_w w =
     (case marker w of
        Link t \<Rightarrow>
          (if os_path_isdir (files w) t then
             (case open_w (os_path_join t FLAG_NAME) (files w) of
                (Inl e, fs) \<Rightarrow> (Inl e, w\<lparr>files := fs\<rparr>)
              | (Inr u, fs) \<Rightarrow> (Inr (os_path_join t FLAG_NAME), w\<lparr>files := fs\<rparr>))
           else (Inl IOError, w))
      | Directory \<Rightarrow>
          (case open_w SYSTEMD_FLAG_FILE (files w) of
             (Inl e, fs) \<Rightarrow> (Inl e, w\<lparr>files := fs\<rparr>)
           | (Inr u, fs) \<Rightarrow> (Inr SYSTEMD_FLAG_FILE, w\<lparr>files := fs\<rparr>))
      | _ \<Rightarrow> (Inl IOError, w))"

text \<open>\<^verbatim>\<open>os.listdir(self.state.datadir)\<close>, for what it raises.\<close>

definition os_listdir :: "jval \<Rightarrow> filesystem \<Rightarrow> error + unit" where
  "os_listdir v fs =
     (case v of
        JStr t \<Rightarrow> (if os_path_isdir fs t then Inr () else Inl OSError)
      | _ \<Rightarrow> Inl TypeError)"

section \<open>SystemUpgradeCommand\<close>

subsection \<open>configure\<close>

text \<open>
  The demands are read by the package manager. In the world, only
  \<open>configure_upgrade\<close> does something: it reads \<open>self.state.datadir\<close>.
\<close>

definition configure_upgrade :: "world \<Rightarrow> unit result" where
  "configure_upgrade w = (case state_datadir (data w) of (dd, d) \<Rightarrow> (Inr (), w\<lparr>data := d\<rparr>))"

text \<open>\<open>demands.resolving\<close>, which \<open>configure_download\<close> and \<open>configure_upgrade\<close> set.\<close>

fun resolving :: "action \<Rightarrow> bool" where
  "resolving Download = True"
| "resolving Upgrade = True"
| "resolving Reboot = False"
| "resolving Clean = False"

subsection \<open>check\<close>

definition check_download :: "ext \<Rightarrow> opts \<Rightarrow> world \<Rightarrow> unit result" where
  "check_download x ops w =
     (case repo_checks x of
        Some e \<Rightarrow> (Inl e, w)
      | None \<Rightarrow>
          (case checkReleaseVer x of
             Inl e \<Rightarrow> (Inl e, w)
           | Inr u \<Rightarrow>
               (case checkDataDir (datadir ops) (files w) of
                  Inl e \<Rightarrow> (Inl e, w)
                | Inr u \<Rightarrow> (Inr (), w))))"

definition check_reboot :: "world \<Rightarrow> unit result" where
  "check_reboot w =
     (case download_status (data w) of
        (v, d) \<Rightarrow>
          (if v \<noteq> JStr ''complete'' then (Inl (CliError NOT_READY_MSG), w\<lparr>data := d\<rparr>)
           else if marker w \<noteq> NoMarker then (Inl (CliError SCHEDULED_MSG), w\<lparr>data := d\<rparr>)
           else (Inr (), w\<lparr>data := d\<rparr>)))"

definition check_upgrade :: "ext \<Rightarrow> world \<Rightarrow> unit result" where
  "check_upgrade x w =
     (case upgrade_status (data w) of
        (v, d) \<Rightarrow>
          (if v \<noteq> JStr ''ready'' then
             (Inl (CliError (USE_REBOOT_MSG (basecmd x))), w\<lparr>data := d\<rparr>)
           else
             (case os_readlink w of
                Inl e \<Rightarrow> (Inl e, w\<lparr>data := d\<rparr>)
              | Inr t \<Rightarrow>
                  (case state_datadir d of
                     (dd, d2) \<Rightarrow>
                       (if JStr t \<noteq> dd then
                          (Inl (SystemExit 0),
                           w\<lparr>data := d2, logged := logged w @ [OTHER_TOOL_MSG]\<rparr>)
                        else (Inr (), w\<lparr>data := d2\<rparr>))))))"

subsection \<open>run\<close>

definition run_reboot :: "ext \<Rightarrow> world \<Rightarrow> unit result" where
  "run_reboot x w =
     (case state_datadir (data w) of
        (dd, d1) \<Rightarrow>
          (case os_symlink dd (w\<lparr>data := d1\<rparr>) of
             (Inl e, w2) \<Rightarrow> (Inl e, w2)
           | (Inr u, w2) \<Rightarrow>
               (case open_flag_w w2 of
                  (Inl e, w3) \<Rightarrow> (Inl e, w3)
                | (Inr p, w3) \<Rightarrow>
                    (case state_releasever (data w3) of
                       (rv, d2) \<Rightarrow>
                         (case with_state
                                 (mutations [(''upgrade'', ''status'', JStr ''ready'')] None)
                                 (w3\<lparr>data := d2,
                                     files := (files w3)
                                       (p \<mapsto> File (Text (''RELEASEVER='' @ py_str rv @ newline)))\<rparr>) of
                            (Inl e, w5) \<Rightarrow> (Inl e, w5)
                          | (Inr u, w5) \<Rightarrow> reboot x w5)))))"

definition run_download :: "ext \<Rightarrow> opts \<Rightarrow> world \<Rightarrow> unit result" where
  "run_download x ops w =
     (case marking x of
        Some e \<Rightarrow> (Inl e, w)
      | None \<Rightarrow>
          (case (if datadir ops = DEFAULT_DATADIR then ensure_dir (datadir ops) (files w)
                 else (Inr (), files w)) of
             (Inl e, fs) \<Rightarrow> (Inl e, w\<lparr>files := fs\<rparr>)
           | (Inr u, fs) \<Rightarrow>
               with_state
                 (mutations
                    [(''download'', ''status'', JStr ''downloading''),
                     (''download'', ''releasever'', of_opt (conf_releasever x)),
                     (''download'', ''datadir'', JStr (datadir ops))] None)
                 (w\<lparr>files := fs\<rparr>)))"

definition run_upgrade :: "ext \<Rightarrow> world \<Rightarrow> unit result" where
  "run_upgrade x w =
     (case unlink_f w of
        (Inl e, w1) \<Rightarrow> (Inl e, w1)
      | (Inr u, w1) \<Rightarrow>
          (case with_state (mutations [(''upgrade'', ''status'', JStr ''incomplete'')] None) w1 of
             (Inl e, w2) \<Rightarrow> (Inl e, w2)
           | (Inr u, w2) \<Rightarrow>
               (case plymouth x of
                  Some e \<Rightarrow> (Inl e, w2)
                | None \<Rightarrow>
                    (case state_datadir (data w2) of
                       (dd, d3) \<Rightarrow>
                         (case os_listdir dd (files w2) of
                            Inl e \<Rightarrow> (Inl e, w2\<lparr>data := d3\<rparr>)
                          | Inr u \<Rightarrow>
                              (case add_rpms x of
                                 Some e \<Rightarrow> (Inl e, w2\<lparr>data := d3\<rparr>)
                               | None \<Rightarrow>
                                   (case state_distro_sync d3 of
                                      (ds, d4) \<Rightarrow>
                                        (case marking x of
                                           Some e \<Rightarrow> (Inl e, w2\<lparr>data := d4\<rparr>)
                                         | None \<Rightarrow> (Inr (), w2\<lparr>data := d4\<rparr>)))))))))"

definition run_clean :: "world \<Rightarrow> unit result" where
  "run_clean w =
     (case state_datadir (data w) of
        (dd, d1) \<Rightarrow>
          (if truthy dd then
             (case dd of
                JStr t \<Rightarrow>
                  (case clear_dir t (files w) of
                     (Inl e, fs) \<Rightarrow>
                       (Inl e, w\<lparr>data := d1, files := fs, logged := logged w @ [CLEANING_MSG]\<rparr>)
                   | (Inr u, fs) \<Rightarrow>
                       State_clear
                         (w\<lparr>data := d1, files := fs, logged := logged w @ [CLEANING_MSG]\<rparr>))
              | _ \<Rightarrow> (Inl TypeError, w\<lparr>data := d1, logged := logged w @ [CLEANING_MSG]\<rparr>))
           else State_clear (w\<lparr>data := d1\<rparr>)))"

subsection \<open>transaction\<close>

definition transaction_download :: "ext \<Rightarrow> opts \<Rightarrow> string list \<Rightarrow> world \<Rightarrow> unit result" where
  "transaction_download x ops downloads w =
     (if \<not> list_ex (\<lambda>name. startswith name ''kernel'') downloads then
        (Inl (DnfError NO_KERNEL_MSG), w)
      else
        (case with_state
                (mutations
                   [(''download'', ''status'', JStr ''complete''),
                    (''upgrade'', ''distro-sync'', JBool (distro_sync ops))] None) w of
           (Inl e, w1) \<Rightarrow> (Inl e, w1)
         | (Inr u, w1) \<Rightarrow>
             (Inr (), w1\<lparr>logged := logged w1 @ [DOWNLOAD_FINISHED_MSG (basecmd x)]\<rparr>)))"

definition transaction_upgrade :: "ext \<Rightarrow> world \<Rightarrow> unit result" where
  "transaction_upgrade x w =
     (case plymouth x of
        Some e \<Rightarrow> (Inl e, w)
      | None \<Rightarrow>
          (case run_clean w of
             (Inl e, w1) \<Rightarrow> (Inl e, w1)
           | (Inr u, w1) \<Rightarrow> reboot x w1))"

subsection \<open>Dispatch on the action\<close>

text \<open>
  \<open>_call_sub\<close> looks the method up by its name and the action, and does nothing
  when there is none.
\<close>

definition configure :: "opts \<Rightarrow> world \<Rightarrow> unit result" where
  "configure ops w = (case action ops of Upgrade \<Rightarrow> configure_upgrade w | _ \<Rightarrow> (Inr (), w))"

definition doCheck :: "ext \<Rightarrow> opts \<Rightarrow> world \<Rightarrow> unit result" where
  "doCheck x ops w =
     (case action ops of
        Download \<Rightarrow> check_download x ops w
      | Reboot \<Rightarrow> check_reboot w
      | Upgrade \<Rightarrow> check_upgrade x w
      | Clean \<Rightarrow> (Inr (), w))"

definition run :: "ext \<Rightarrow> opts \<Rightarrow> world \<Rightarrow> unit result" where
  "run x ops w =
     (case action ops of
        Download \<Rightarrow> run_download x ops w
      | Reboot \<Rightarrow> run_reboot x w
      | Upgrade \<Rightarrow> run_upgrade x w
      | Clean \<Rightarrow> run_clean w)"

definition run_transaction :: "ext \<Rightarrow> opts \<Rightarrow> string list \<Rightarrow> world \<Rightarrow> unit result" where
  "run_transaction x ops downloads w =
     (case action ops of
        Download \<Rightarrow> transaction_download x ops downloads w
      | Upgrade \<Rightarrow> transaction_upgrade x w
      | _ \<Rightarrow> (Inr (), w))"

subsection \<open>One run of the command\<close>

text \<open>
  The package manager's command line builds the command (which loads the state),
  then calls \<open>configure\<close>, \<open>doCheck\<close> and \<open>run\<close>; when the command demands resolving,
  it resolves and runs the transaction, and calls \<open>run_transaction\<close> after a
  transaction that succeeded. \<open>phase_check\<close> is the run up to the end of the check,
  \<open>phase_start\<close> the run up to the transaction, \<open>phase_finish\<close> the rest. An
  exception ends the run where it is raised.
\<close>

definition phase_check :: "ext \<Rightarrow> opts \<Rightarrow> filesystem \<Rightarrow> marker \<Rightarrow> unit result" where
  "phase_check x ops fs m =
     (case State_init fs m of
        (Inl e, w0) \<Rightarrow> (Inl e, w0)
      | (Inr u, w0) \<Rightarrow>
          (case configure ops w0 of
             (Inl e, w1) \<Rightarrow> (Inl e, w1)
           | (Inr u, w1) \<Rightarrow> doCheck x ops w1))"

definition phase_start :: "ext \<Rightarrow> opts \<Rightarrow> filesystem \<Rightarrow> marker \<Rightarrow> unit result" where
  "phase_start x ops fs m =
     (case phase_check x ops fs m of
        (Inl e, w2) \<Rightarrow> (Inl e, w2)
      | (Inr u, w2) \<Rightarrow> run x ops w2)"

definition phase_finish :: "ext \<Rightarrow> opts \<Rightarrow> world \<Rightarrow> unit result" where
  "phase_finish x ops w =
     (if resolving (action ops) then
        (case transaction x of
           Inl e \<Rightarrow> (Inl e, w)
         | Inr downloads \<Rightarrow> run_transaction x ops downloads w)
      else (Inr (), w))"

definition phase :: "ext \<Rightarrow> opts \<Rightarrow> filesystem \<Rightarrow> marker \<Rightarrow> unit result" where
  "phase x ops fs m =
     (case phase_start x ops fs m of
        (Inl e, w) \<Rightarrow> (Inl e, w)
      | (Inr u, w) \<Rightarrow> phase_finish x ops w)"

text \<open>What the next run would load: the state on the disk.\<close>

definition persisted :: "world \<Rightarrow> error + jdata" where
  "persisted w = State_read (files w)"

definition persisted_field :: "string \<Rightarrow> string \<Rightarrow> filesystem \<Rightarrow> error + jval" where
  "persisted_field sec opt fs =
     (case State_read fs of Inl e \<Rightarrow> Inl e | Inr d \<Rightarrow> Inr (fst (getprop sec opt d)))"

section \<open>Sequences of reads and example inputs\<close>

text \<open>Reading properties one after the other: every read goes through \<open>getprop\<close>.\<close>

fun reads :: "(string \<times> string) list \<Rightarrow> jdata \<Rightarrow> jval list \<times> jdata" where
  "reads [] d = ([], d)"
| "reads ((sec, opt) # qs) d =
     (case getprop sec opt d of
        (v, d1) \<Rightarrow> (case reads qs d1 of (vs, d2) \<Rightarrow> (v # vs, d2)))"

text \<open>Concrete inputs: a package manager that answers well, states, file systems.\<close>

definition ext_ok :: ext where
  "ext_ok =
     \<lparr>basecmd = ''system-upgrade'', detected_releasever = Some ''39'',
      conf_releasever = Some ''40'', repo_checks = None, marking = None, add_rpms = None,
      transaction = Inr [''bash'', ''kernel-core''], plymouth = None,
      systemctl_reboot = None\<rparr>"

definition ext_no_kernel :: ext where
  "ext_no_kernel = ext_ok\<lparr>transaction := Inr [''bash'', ''glibc'']\<rparr>"

definition opts_for :: "action \<Rightarrow> opts" where
  "opts_for a = \<lparr>action = a, datadir = DEFAULT_DATADIR, distro_sync = False\<rparr>"

definition data_downloading :: "string \<Rightarrow> jdata" where
  "data_downloading dd =
     [''download'' \<mapsto>
        [''status'' \<mapsto> JStr ''downloading'', ''releasever'' \<mapsto> JStr ''40'',
         ''datadir'' \<mapsto> JStr dd]]"

definition data_complete :: jdata where
  "data_complete =
     [''download'' \<mapsto>
        [''status'' \<mapsto> JStr ''complete'', ''releasever'' \<mapsto> JStr ''40'',
         ''datadir'' \<mapsto> JStr DEFAULT_DATADIR],
      ''upgrade'' \<mapsto> [''distro-sync'' \<mapsto> JBool False]]"

definition data_ready :: jdata where
  "data_ready =
     [''download'' \<mapsto>
        [''status'' \<mapsto> JStr ''complete'', ''releasever'' \<mapsto> JStr ''40'',
         ''datadir'' \<mapsto> JStr DEFAULT_DATADIR],
      ''upgrade'' \<mapsto> [''distro-sync'' \<mapsto> JBool False, ''status'' \<mapsto> JStr ''ready'']]"

definition fs_base :: filesystem where
  "fs_base = [''/var'' \<mapsto> Dir, ''/var/lib'' \<mapsto> Dir, ''/var/lib/dnf'' \<mapsto> Dir]"

definition fs_with :: "jdata \<Rightarrow> filesystem" where
  "fs_with d = fs_base(DEFAULT_DATADIR \<mapsto> Dir, statefile \<mapsto> File (Json d))"

definition world_of :: "jdata \<Rightarrow> marker \<Rightarrow> world" where
  "world_of d m = \<lparr>data = d, files = fs_with d, marker = m, logged = []\<rparr>"

definition fs_state :: "jdata \<Rightarrow> filesystem" where
  "fs_state d = fs_base(statefile \<mapsto> File (Json d))"

definition fs_corrupt :: filesystem where
  "fs_corrupt = fs_base(statefile \<mapsto> File (Text ''{''))"

definition fs_statefile_dir :: filesystem where
  "fs_statefile_dir = fs_base(statefile \<mapsto> Dir)"



section \<open>Properties\<close>

subsection \<open>The file system and the state file\<close>

lemma path_chain_statedir: "path_chain statedir = [''/var'', ''/var/lib'', ''/var/lib/dnf'']"
  by (simp add: path_chain_def statedir_def)

lemma mkdirs_frame: "p \<notin> set ds \<Longrightarrow> snd (mkdirs ds fs) p = fs p"
  by (induction ds arbitrary: fs) (auto split: option.splits node.splits)

lemma mkdirs_keeps: "fs p = Some n \<Longrightarrow> snd (mkdirs ds fs) p = Some n"
proof (induction ds arbitrary: fs)
  case Nil
  then show ?case by simp
next
  case (Cons a ds)
  show ?case
  proof (cases "fs a")
    case None
    with Cons.prems have "p \<noteq> a" by auto
    then have "(fs(a \<mapsto> Dir)) p = Some n" using Cons.prems by simp
    then have "snd (mkdirs ds (fs(a \<mapsto> Dir))) p = Some n" by (rule Cons.IH)
    with None show ?thesis by simp
  next
    case (Some nd)
    then show ?thesis using Cons by (cases nd) auto
  qed
qed

lemma statefile_not_chain: "statefile \<notin> set (path_chain statedir)"
  by (simp add: path_chain_statedir) (simp add: statefile_def)

lemma State_write_ok:
  assumes "State_write d fs = (Inr u, fs')"
  shows "fs' statefile = Some (File (Json d))"
  using assms
  by (auto simp: State_write_def open_w_def json_dump_def split: prod.splits sum.splits option.splits node.splits)

lemma State_write_frame:
  assumes "p \<notin> set (path_chain statedir)" "p \<noteq> statefile"
  shows "snd (State_write d fs) p = fs p"
proof -
  have e: "snd (ensure_dir statedir fs) p = fs p"
    unfolding ensure_dir_def using assms(1) by (rule mkdirs_frame)
  show ?thesis
    using e assms(2)
    by (auto simp: State_write_def open_w_def json_dump_def split: prod.splits sum.splits option.splits node.splits)
qed


lemma State_read_written:
  "State_write d fs = (Inr u, fs') \<Longrightarrow> State_read fs' = Inr d"
  by (simp add: State_read_def State_write_ok)


subsection \<open>Unset fields\<close>

lemma getprop_unset:
  assumes "\<forall>sec s. d sec = Some s \<longrightarrow> s = Map.empty"
  shows "fst (getprop sec opt d) = JNull"
    and "\<forall>sec' s. snd (getprop sec opt d) sec' = Some s \<longrightarrow> s = Map.empty"
  using assms by (auto simp: getprop_def Let_def split: option.splits)

lemma reads_unset:
  "\<forall>sec s. d sec = Some s \<longrightarrow> s = Map.empty \<Longrightarrow>
     fst (reads qs d) = replicate (length qs) JNull"
proof (induction qs arbitrary: d)
  case Nil
  then show ?case by simp
next
  case (Cons q qs)
  obtain sec opt where q: "q = (sec, opt)" by (cases q)
  have v: "fst (getprop sec opt d) = JNull" using Cons.prems by (rule getprop_unset(1))
  have "\<forall>sec' s. snd (getprop sec opt d) sec' = Some s \<longrightarrow> s = Map.empty"
    using Cons.prems by (rule getprop_unset(2))
  then have "fst (reads qs (snd (getprop sec opt d))) = replicate (length qs) JNull"
    by (rule Cons.IH)
  with v q show ?case by (auto split: prod.splits)
qed

text \<open>
  C10. With no state file, the state that the command loads is empty. Reading any
  properties from it, in any number and order, gives \<^verbatim>\<open>None\<close> each time and
  raises nothing, and the guards of the reboot and of the upgrade action, which
  compare an unset field with a status, deny with their \<^verbatim>\<open>CliError\<close>.
\<close>

theorem C10_fresh_state_reads_none:
  assumes "fs statefile = None"
  shows "\<exists>w. State_init fs m = (Inr (), w) \<and> data w = Map.empty
           \<and> fst (reads qs (data w)) = replicate (length qs) JNull
           \<and> fst (check_reboot w) = Inl (CliError NOT_READY_MSG)
           \<and> fst (check_upgrade x w) = Inl (CliError (USE_REBOOT_MSG (basecmd x)))"
proof -
  have r: "State_read fs = Inr Map.empty" using assms by (simp add: State_read_def)
  let ?w = "\<lparr>data = Map.empty, files = fs, marker = m, logged = []\<rparr>"
  have i: "State_init fs m = (Inr (), ?w)" using r by (simp add: State_init_def)
  have q: "fst (reads qs (data ?w)) = replicate (length qs) JNull"
    by (rule reads_unset) simp
  have cr: "fst (check_reboot ?w) = Inl (CliError NOT_READY_MSG)"
    by (simp add: check_reboot_def download_status_def getprop_def)
  have cu: "fst (check_upgrade x ?w) = Inl (CliError (USE_REBOOT_MSG (basecmd x)))"
    by (simp add: check_upgrade_def upgrade_status_def getprop_def)
  from i q cr cu show ?thesis by simp
qed

subsection \<open>The scope of the state object\<close>

lemma with_state_mutations_None:
  "with_state (mutations ms None) w =
     (fst (State_write (setprops ms (data w)) (files w)),
      w\<lparr>data := setprops ms (data w),
        files := snd (State_write (setprops ms (data w)) (files w))\<rparr>)"
  by (simp add: with_state_def mutations_def split: prod.splits)

lemma with_state_mutations_Some:
  "with_state (mutations ms (Some e)) w = (Inl e, w\<lparr>data := setprops ms (data w)\<rparr>)"
  by (simp add: with_state_def mutations_def)

text \<open>
  C2. A \<^verbatim>\<open>with self.state\<close> block whose body ends with an exception keeps the
  exception and leaves the file system, hence the persisted record, as it was when
  the block was entered. A body that ends without one is followed by
  \<open>State.write\<close> of the data as the body left them, and when that write succeeds the
  persisted record is those data. The body is any function on the data in memory:
  \<open>mutations ms raised\<close>, a sequence of assignments to fields and then an exception
  or none, is one.
\<close>

theorem C2_scoped_commit:
  assumes "body (data w) = (rb, d)" and "with_state body w = (r, w')"
  shows "data w' = d \<and> marker w' = marker w
       \<and> (case rb of
             Inl e \<Rightarrow> r = Inl e \<and> files w' = files w \<and> persisted w' = persisted w
           | Inr u \<Rightarrow> (r, files w') = State_write d (files w)
                      \<and> (r = Inr () \<longrightarrow> persisted w' = Inr d))"
proof (cases rb)
  case (Inl e)
  with assms show ?thesis by (auto simp: with_state_def persisted_def)
next
  case (Inr u)
  with assms have w: "State_write d (files w) = (r, files w')" and d: "data w' = d"
    and m: "marker w' = marker w"
    by (auto simp: with_state_def split: prod.splits)
  have "r = Inr () \<Longrightarrow> persisted w' = Inr d"
    using w State_read_written[of d "files w" "()" "files w'"] by (simp add: persisted_def)
  with w d m Inr show ?thesis by simp
qed


lemma fs_base_statefile: "fs_base statefile = None"
  by (simp add: fs_base_def statefile_def)

theorem C10_fresh_state_reads_none_witness:
  "fs_base statefile = None
   \<and> (\<exists>w. State_init fs_base NoMarker = (Inr (), w) \<and> data w = Map.empty
        \<and> fst (reads [(''download'', ''status''), (''upgrade'', ''status'')] (data w))
            = [JNull, JNull]
        \<and> fst (check_reboot w) = Inl (CliError NOT_READY_MSG)
        \<and> fst (check_upgrade ext_ok w) = Inl (CliError (USE_REBOOT_MSG ''system-upgrade'')))"
proof -
  have h: "fs_base statefile = None" by (rule fs_base_statefile)
  have b: "basecmd ext_ok = ''system-upgrade''" by (simp add: ext_ok_def)
  show ?thesis
    using h b C10_fresh_state_reads_none [of fs_base NoMarker
        "[(''download'', ''status''), (''upgrade'', ''status'')]" ext_ok]
    by (simp add: numeral_2_eq_2)
qed

theorem C2_scoped_commit_witness:
  "fst (with_state (mutations [(''download'', ''status'', JStr ''complete'')] (Some ValueError))
          (world_of (data_downloading DEFAULT_DATADIR) NoMarker)) = Inl ValueError
   \<and> persisted (snd (with_state
          (mutations [(''download'', ''status'', JStr ''complete'')] (Some ValueError))
          (world_of (data_downloading DEFAULT_DATADIR) NoMarker)))
       = persisted (world_of (data_downloading DEFAULT_DATADIR) NoMarker)
   \<and> fst (with_state (mutations [(''download'', ''status'', JStr ''complete'')] None)
          (world_of (data_downloading DEFAULT_DATADIR) NoMarker)) = Inr ()
   \<and> persisted (snd (with_state (mutations [(''download'', ''status'', JStr ''complete'')] None)
          (world_of (data_downloading DEFAULT_DATADIR) NoMarker)))
       = Inr (setprops [(''download'', ''status'', JStr ''complete'')]
               (data_downloading DEFAULT_DATADIR))"
proof -
  let ?w = "world_of (data_downloading DEFAULT_DATADIR) NoMarker"
  let ?ms = "[(''download'', ''status'', JStr ''complete'')]"
  let ?d = "setprops ?ms (data ?w)"
  have dw: "data ?w = data_downloading DEFAULT_DATADIR" by (simp add: world_of_def)
  have b1: "mutations ?ms (Some ValueError) (data ?w) = (Inl ValueError, ?d)"
    by (simp add: mutations_def)
  have b2: "mutations ?ms None (data ?w) = (Inr (), ?d)"
    by (simp add: mutations_def)
  have ok: "fst (State_write ?d (files ?w)) = Inr ()"
    by (simp add: State_write_def ensure_dir_def path_chain_statedir world_of_def fs_with_def
        fs_base_def open_w_def statefile_def DEFAULT_DATADIR_def)
  have r2: "fst (with_state (mutations ?ms None) ?w) = Inr ()"
    using ok by (simp add: with_state_mutations_None)
  have p1: "with_state (mutations ?ms (Some ValueError)) ?w =
      (fst (with_state (mutations ?ms (Some ValueError)) ?w),
       snd (with_state (mutations ?ms (Some ValueError)) ?w))" by simp
  have p2: "with_state (mutations ?ms None) ?w =
      (fst (with_state (mutations ?ms None) ?w), snd (with_state (mutations ?ms None) ?w))"
    by simp
  note t1 = C2_scoped_commit [of "mutations ?ms (Some ValueError)" ?w "Inl ValueError" ?d
      "fst (with_state (mutations ?ms (Some ValueError)) ?w)"
      "snd (with_state (mutations ?ms (Some ValueError)) ?w)", OF b1 p1]
  note t2 = C2_scoped_commit [of "mutations ?ms None" ?w "Inr ()" ?d
      "fst (with_state (mutations ?ms None) ?w)" "snd (with_state (mutations ?ms None) ?w)",
      OF b2 p2]
  have f1: "fst (with_state (mutations ?ms (Some ValueError)) ?w) = Inl ValueError"
    and f2: "persisted (snd (with_state (mutations ?ms (Some ValueError)) ?w)) = persisted ?w"
    using t1 by simp_all
  have f3: "persisted (snd (with_state (mutations ?ms None) ?w)) = Inr ?d"
    using t2 r2 by simp
  from f1 f2 r2 f3 dw show ?thesis by simp
qed


subsection \<open>Loading and committing the state\<close>

text \<open>
  C7, amended. Loading returns the last committed state: after a \<open>State.write\<close> that
  succeeded, \<open>State._read\<close> gives the data that were written. With no state file it
  gives the empty state. Every \<^verbatim>\<open>IOError\<close> of opening the file is caught, so a
  directory at the path of the state file gives the empty state too, and loading
  never fails with \<^verbatim>\<open>IOError\<close>. A file that holds no JSON document makes
  \<^verbatim>\<open>json.load\<close> raise \<^verbatim>\<open>ValueError\<close>, which is not caught.
\<close>

theorem C7_load:
  "(State_write d fs0 = (Inr (), fs) \<longrightarrow> State_read fs = Inr d)
   \<and> (fs statefile = None \<longrightarrow> State_read fs = Inr Map.empty)
   \<and> (fs statefile = Some Dir \<longrightarrow> State_read fs = Inr Map.empty)
   \<and> (fs statefile = Some (File (Json d')) \<longrightarrow> State_read fs = Inr d')
   \<and> (fs statefile = Some (File (Text s)) \<longrightarrow> State_read fs = Inl ValueError)
   \<and> State_read fs \<noteq> Inl IOError"
proof -
  have "State_write d fs0 = (Inr (), fs) \<Longrightarrow> State_read fs = Inr d"
    by (rule State_read_written)
  moreover have "State_read fs \<noteq> Inl IOError"
    by (simp add: State_read_def split: option.splits node.splits content.splits)
  ultimately show ?thesis by (auto simp: State_read_def)
qed

theorem C7_load_witness:
  "State_write data_ready fs_base = (Inr (), fs_state data_ready)
   \<and> State_read (fs_state data_ready) = Inr data_ready
   \<and> fs_base statefile = None \<and> State_read fs_base = Inr Map.empty
   \<and> fs_statefile_dir statefile = Some Dir \<and> State_read fs_statefile_dir = Inr Map.empty
   \<and> fs_corrupt statefile = Some (File (Text ''{''))
   \<and> State_read fs_corrupt = Inl ValueError"
proof -
  have w: "State_write data_ready fs_base = (Inr (), fs_state data_ready)"
    by (simp add: State_write_def ensure_dir_def path_chain_statedir fs_base_def fs_state_def
        open_w_def json_dump_def statefile_def)
  have j: "fs_state data_ready statefile = Some (File (Json data_ready))"
    by (simp add: fs_state_def)
  have n: "fs_base statefile = None" by (rule fs_base_statefile)
  have dd: "fs_statefile_dir statefile = Some Dir" by (simp add: fs_statefile_dir_def)
  have c: "fs_corrupt statefile = Some (File (Text ''{''))" by (simp add: fs_corrupt_def)
  from C7_load [of data_ready fs_base "fs_state data_ready" data_ready "''{''"] w
  have 1: "State_read (fs_state data_ready) = Inr data_ready" by simp
  from C7_load [of data_ready fs_base fs_base data_ready "''{''"] n
  have 2: "State_read fs_base = Inr Map.empty" by simp
  from C7_load [of data_ready fs_base fs_statefile_dir data_ready "''{''"] dd
  have 3: "State_read fs_statefile_dir = Inr Map.empty" by simp
  from C7_load [of data_ready fs_base fs_corrupt data_ready "''{''"] c
  have 4: "State_read fs_corrupt = Inl ValueError" by simp
  from w 1 n 2 dd 3 c 4 show ?thesis by simp
qed

theorem C7_load_counterexample:
  "State_read fs_corrupt = Inl ValueError \<and> State_read fs_corrupt \<noteq> Inl IOError
   \<and> State_read fs_statefile_dir = Inr Map.empty"
  by (simp add: State_read_def fs_corrupt_def fs_statefile_dir_def)

lemma open_w_if:
  "open_w p fs = (if fs p = Some Dir then (Inl IOError, fs) else (Inr (), fs(p \<mapsto> File (Text []))))"
  by (simp add: open_w_def split: option.splits node.splits)

lemma State_write_trace_last: "snd (State_write d fs) = last (State_write_trace d fs)"
  by (simp add: State_write_def State_write_trace_def split: prod.splits sum.splits)

lemma ensure_statedir_statefile: "snd (ensure_dir statedir fs) statefile = fs statefile"
  unfolding ensure_dir_def using statefile_not_chain by (rule mkdirs_frame)

text \<open>
  C3, amended. \<open>State.write\<close> writes the record in place: it opens the state file
  itself for writing, which empties it, and then writes the document; there is no
  temporary file and no rename. Every state of the file system that the write goes
  through has, at the path of the state file, what was there before, the emptied
  file, or the full record; a write that succeeds goes through the emptied file and
  ends with the full record. So an interruption between the open and the end of
  the write leaves a state file that is no record.
\<close>

theorem C3_write_in_place:
  "(\<forall>fs' \<in> set (State_write_trace d fs).
       fs' statefile = fs statefile \<or> fs' statefile = Some (File (Text []))
       \<or> fs' statefile = Some (File (Json d)))
   \<and> snd (State_write d fs) = last (State_write_trace d fs)
   \<and> (fst (State_write d fs) = Inr () \<longrightarrow>
        length (State_write_trace d fs) = 4
        \<and> (State_write_trace d fs ! 2) statefile = Some (File (Text []))
        \<and> State_read (State_write_trace d fs ! 2) = Inl ValueError
        \<and> snd (State_write d fs) statefile = Some (File (Json d)))"
proof -
  obtain r1 fs1 where e: "ensure_dir statedir fs = (r1, fs1)" by (cases "ensure_dir statedir fs")
  have s1: "fs1 statefile = fs statefile" using ensure_statedir_statefile [of fs] e by simp
  have a: "\<forall>fs' \<in> set (State_write_trace d fs).
       fs' statefile = fs statefile \<or> fs' statefile = Some (File (Text []))
       \<or> fs' statefile = Some (File (Json d))"
  proof (cases r1)
    case (Inl x)
    with e s1 show ?thesis by (simp add: State_write_trace_def)
  next
    case (Inr u)
    with e s1 show ?thesis
      by (cases "fs1 statefile = Some Dir")
        (simp_all add: State_write_trace_def open_w_if json_dump_def)
  qed
  have c: "fst (State_write d fs) = Inr () \<longrightarrow>
        length (State_write_trace d fs) = 4
        \<and> (State_write_trace d fs ! 2) statefile = Some (File (Text []))
        \<and> State_read (State_write_trace d fs ! 2) = Inl ValueError
        \<and> snd (State_write d fs) statefile = Some (File (Json d))"
  proof (cases r1)
    case (Inl x)
    with e show ?thesis by (simp add: State_write_def)
  next
    case (Inr u)
    with e show ?thesis
      by (cases "fs1 statefile = Some Dir")
        (simp_all add: State_write_def State_write_trace_def open_w_if json_dump_def
          State_read_def)
  qed
  from a c State_write_trace_last [of d fs] show ?thesis by blast
qed

theorem C3_write_in_place_witness:
  "fst (State_write data_ready (fs_with data_complete)) = Inr ()
   \<and> length (State_write_trace data_ready (fs_with data_complete)) = 4
   \<and> (State_write_trace data_ready (fs_with data_complete) ! 2) statefile
       = Some (File (Text []))
   \<and> snd (State_write data_ready (fs_with data_complete)) statefile
       = Some (File (Json data_ready))"
proof -
  have ok: "fst (State_write data_ready (fs_with data_complete)) = Inr ()"
    by (simp add: State_write_def ensure_dir_def path_chain_statedir fs_with_def fs_base_def
        open_w_def statefile_def DEFAULT_DATADIR_def)
  from C3_write_in_place [of data_ready "fs_with data_complete"] ok
  show ?thesis by blast
qed

theorem C3_write_in_place_counterexample:
  "(State_write_trace data_ready (fs_with data_complete) ! 2) statefile
     \<noteq> Some (File (Json data_complete))
   \<and> (State_write_trace data_ready (fs_with data_complete) ! 2) statefile
     \<noteq> Some (File (Json data_ready))
   \<and> State_read (State_write_trace data_ready (fs_with data_complete) ! 2) = Inl ValueError"
  by (simp add: State_write_trace_def ensure_dir_def path_chain_statedir fs_with_def fs_base_def
      open_w_def statefile_def DEFAULT_DATADIR_def State_read_def)


subsection \<open>The guards\<close>

lemma getprop_after_getprop [simp]:
  "fst (getprop sec opt (snd (getprop sec' opt' d))) = fst (getprop sec opt d)"
  by (auto simp: getprop_def Let_def split: option.splits)

lemma check_upgrade_OSError_iff:
  "fst (check_upgrade x w) = Inl OSError
     \<longleftrightarrow> fst (upgrade_status (data w)) = JStr ''ready'' \<and> (\<forall>t. marker w \<noteq> Link t)"
  by (cases "marker w")
    (auto simp: check_upgrade_def os_readlink_def split: prod.splits)

text \<open>
  C4, at the input where the code leaves the claim: the state says that the upgrade
  is ready and nothing stands at \<^verbatim>\<open>/system-update\<close>. \<open>check_upgrade\<close> calls
  \<^verbatim>\<open>os.readlink\<close> on the path without looking whether it exists, and the run ends
  with the \<^verbatim>\<open>OSError\<close> of that call, which is none of the answers of a guard.
\<close>

theorem C4_upgrade_guard_without_marker:
  "fst (check_upgrade ext_ok (world_of data_ready NoMarker)) = Inl OSError
   \<and> fst (phase ext_ok (opts_for Upgrade) (fs_with data_ready) NoMarker) = Inl OSError"
  by (simp add: check_upgrade_def world_of_def data_ready_def upgrade_status_def
      state_datadir_def getprop_def os_readlink_def phase_def phase_start_def phase_check_def
      State_init_def State_read_def fs_with_def opts_for_def configure_def
      configure_upgrade_def doCheck_def)

text \<open>
  C5. The state says that the upgrade is ready, and \<^verbatim>\<open>/system-update\<close> is a link
  whose target is not the data directory of the state. Then the run of the upgrade
  action ends in \<open>check_upgrade\<close> with \<^verbatim>\<open>SystemExit(0)\<close>, after one message to the
  log at level info; the file system, the link and the persisted state are what they
  were.
\<close>

theorem C5_stale_run_quiet_exit:
  assumes "State_read fs = Inr d"
    and "fst (upgrade_status d) = JStr ''ready''"
    and "fst (state_datadir d) \<noteq> JStr t"
    and "action ops = Upgrade"
  shows "\<exists>w. phase x ops fs (Link t) = (Inl (SystemExit 0), w)
           \<and> files w = fs \<and> marker w = Link t \<and> logged w = [OTHER_TOOL_MSG]
           \<and> persisted w = Inr d"
proof -
  let ?w0 = "\<lparr>data = d, files = fs, marker = Link t, logged = []\<rparr>"
  have i: "State_init fs (Link t) = (Inr (), ?w0)"
    using assms(1) by (simp add: State_init_def)
  obtain dd d1 where c: "state_datadir d = (dd, d1)" by (cases "state_datadir d")
  have d1: "d1 = snd (state_datadir d)" using c by simp
  have cf: "configure ops ?w0 = (Inr (), ?w0\<lparr>data := d1\<rparr>)"
    using assms(4) c by (simp add: configure_def configure_upgrade_def)
  have u: "fst (upgrade_status d1) = JStr ''ready''"
    using assms(2) unfolding d1 upgrade_status_def state_datadir_def by simp
  obtain d2 where u2: "upgrade_status d1 = (JStr ''ready'', d2)"
    using u by (cases "upgrade_status d1") simp
  have d2: "d2 = snd (upgrade_status d1)" using u2 by simp
  have dd2: "fst (state_datadir d2) \<noteq> JStr t"
    using assms(3) unfolding d2 d1 upgrade_status_def state_datadir_def by simp
  obtain v d3 where s3: "state_datadir d2 = (v, d3)" by (cases "state_datadir d2")
  have v: "JStr t \<noteq> v" using dd2 s3 by auto
  have ck: "check_upgrade x (?w0\<lparr>data := d1\<rparr>) =
      (Inl (SystemExit 0), ?w0\<lparr>data := d3, logged := [OTHER_TOOL_MSG]\<rparr>)"
    using u2 s3 v by (simp add: check_upgrade_def os_readlink_def)
  have "phase x ops fs (Link t) = (Inl (SystemExit 0), ?w0\<lparr>data := d3, logged := [OTHER_TOOL_MSG]\<rparr>)"
    using i cf ck assms(4)
    by (simp add: phase_def phase_start_def phase_check_def doCheck_def)
  then show ?thesis using assms(1) by (simp add: persisted_def)
qed

theorem C5_stale_run_quiet_exit_witness:
  "State_read (fs_with data_ready) = Inr data_ready
   \<and> fst (upgrade_status data_ready) = JStr ''ready''
   \<and> fst (state_datadir data_ready) \<noteq> JStr ''/var/lib/other-upgrade''
   \<and> action (opts_for Upgrade) = Upgrade
   \<and> (\<exists>w. phase ext_ok (opts_for Upgrade) (fs_with data_ready) (Link ''/var/lib/other-upgrade'')
             = (Inl (SystemExit 0), w)
          \<and> files w = fs_with data_ready \<and> marker w = Link ''/var/lib/other-upgrade''
          \<and> logged w = [OTHER_TOOL_MSG] \<and> persisted w = Inr data_ready)"
proof -
  have h1: "State_read (fs_with data_ready) = Inr data_ready"
    by (simp add: State_read_def fs_with_def)
  have h2: "fst (upgrade_status data_ready) = JStr ''ready''"
    by (simp add: upgrade_status_def getprop_def data_ready_def)
  have h3: "fst (state_datadir data_ready) \<noteq> JStr ''/var/lib/other-upgrade''"
    by (simp add: state_datadir_def getprop_def data_ready_def DEFAULT_DATADIR_def)
  have h4: "action (opts_for Upgrade) = Upgrade" by (simp add: opts_for_def)
  from C5_stale_run_quiet_exit [of "fs_with data_ready" data_ready "''/var/lib/other-upgrade''"
      "opts_for Upgrade" ext_ok, OF h1 h2 h3 h4] h1 h2 h3 h4
  show ?thesis by simp
qed

subsection \<open>The clean action\<close>

text \<open>
  C8, at the input where the code leaves the claim: the state records a data
  directory that does not exist (what a download with \<^verbatim>\<open>--datadir\<close> leaves when its
  transaction fails before anything was fetched). \<open>run_clean\<close> hands the path to
  \<^verbatim>\<open>dnf.util.clear_dir\<close>, whose \<^verbatim>\<open>OSError\<close> ends the run before \<open>State.clear\<close>:
  the persisted state stays as it was, and a second run starts from the same state.
\<close>

theorem C8_clean_missing_datadir:
  "fst (phase ext_ok (opts_for Clean) (fs_state (data_downloading ''/srv/upgrade'')) NoMarker)
     = Inl OSError
   \<and> files (snd (phase ext_ok (opts_for Clean) (fs_state (data_downloading ''/srv/upgrade''))
        NoMarker)) = fs_state (data_downloading ''/srv/upgrade'')
   \<and> State_read (fs_state (data_downloading ''/srv/upgrade''))
     = Inr (data_downloading ''/srv/upgrade'')"
  by (simp add: phase_def phase_start_def phase_check_def State_init_def State_read_def
      fs_state_def opts_for_def configure_def doCheck_def run_def run_clean_def
      state_datadir_def getprop_def data_downloading_def clear_dir_def fs_base_def)


text \<open>
  Where the state records no data directory, or one that exists, the run of the
  clean action succeeds and no state file is left; a second run succeeds and changes
  nothing. Of the data directory, \<^verbatim>\<open>dnf.util.clear_dir\<close> removes the directories in it
  with all that is below them; the regular files that are entries of the directory
  stay.
\<close>

lemma State_clear_ok:
  assumes "files w statefile \<noteq> Some Dir"
  shows "State_clear w = (Inr (), w\<lparr>data := Map.empty, files := (files w)(statefile := None)\<rparr>)"
proof (cases "files w statefile")
  case None
  then have "(files w)(statefile := None) = files w" by auto
  with None show ?thesis
    by (simp add: State_clear_def os_path_exists_def State_read_def)
next
  case (Some n)
  with assms show ?thesis
    by (simp add: State_clear_def os_path_exists_def os_path_isdir_def State_read_def)
qed

lemma clean_twice:
  assumes "action ops = Clean" and "State_read fs = Inr d" and "fs statefile \<noteq> Some Dir"
    and "\<not> truthy (fst (state_datadir d)) \<or> (\<exists>t. fst (state_datadir d) = JStr t \<and> fs t = Some Dir)"
  shows "\<exists>w. phase x ops fs m = (Inr (), w) \<and> data w = Map.empty
           \<and> files w statefile = None \<and> State_read (files w) = Inr Map.empty
           \<and> (\<forall>t p. truthy (fst (state_datadir d)) \<and> fst (state_datadir d) = JStr t \<and> under t p
                 \<and> fs (entry_of t p) = Some Dir \<longrightarrow> files w p = None)
           \<and> (\<forall>t p. truthy (fst (state_datadir d)) \<and> fst (state_datadir d) = JStr t \<and> under t p
                 \<and> fs (entry_of t p) \<noteq> Some Dir \<and> p \<noteq> statefile \<longrightarrow> files w p = fs p)
           \<and> phase x ops (files w) (marker w) = (Inr (), w\<lparr>logged := []\<rparr>)"
proof -
  let ?init = "\<lparr>data = d, files = fs, marker = m, logged = []\<rparr>"
  have ph: "\<And>fs' m'. phase x ops fs' m' =
      (case State_init fs' m' of (Inl e, w) \<Rightarrow> (Inl e, w) | (Inr u, w) \<Rightarrow> run_clean w)"
  proof -
    fix fs' m'
    obtain r0 w0 where i: "State_init fs' m' = (r0, w0)" by (cases "State_init fs' m'")
    obtain r1 w1 where c: "run_clean w0 = (r1, w1)" by (cases "run_clean w0")
    show "phase x ops fs' m' =
      (case State_init fs' m' of (Inl e, w) \<Rightarrow> (Inl e, w) | (Inr u, w) \<Rightarrow> run_clean w)"
      using assms(1) i c
      by (cases r0; cases r1)
        (simp_all add: phase_def phase_start_def phase_check_def configure_def doCheck_def
          run_def phase_finish_def)
  qed
  have i: "State_init fs m = (Inr (), ?init)" using assms(2) by (simp add: State_init_def)
  obtain dd d1 where sd: "state_datadir d = (dd, d1)" by (cases "state_datadir d")
  have second: "\<And>w. data w = Map.empty \<Longrightarrow> files w statefile = None \<Longrightarrow>
      phase x ops (files w) (marker w) = (Inr (), w\<lparr>logged := []\<rparr>)"
  proof -
    fix w :: world
    assume e: "data w = Map.empty" and n: "files w statefile = None"
    have u: "(files w)(statefile := None) = files w" using n by auto
    have sc: "State_clear \<lparr>data = [''download'' \<mapsto> Map.empty], files = files w,
        marker = marker w, logged = []\<rparr>
        = (Inr (), \<lparr>data = Map.empty, files = files w, marker = marker w, logged = []\<rparr>)"
      using n u by (simp add: State_clear_ok)
    have si: "State_init (files w) (marker w)
        = (Inr (), \<lparr>data = Map.empty, files = files w, marker = marker w, logged = []\<rparr>)"
      using n by (simp add: State_init_def State_read_def)
    have rc: "run_clean \<lparr>data = Map.empty, files = files w, marker = marker w, logged = []\<rparr>
        = State_clear \<lparr>data = [''download'' \<mapsto> Map.empty], files = files w,
            marker = marker w, logged = []\<rparr>"
      by (simp add: run_clean_def state_datadir_def getprop_def)
    have "phase x ops (files w) (marker w)
        = (Inr (), \<lparr>data = Map.empty, files = files w, marker = marker w, logged = []\<rparr>)"
      unfolding ph si using rc sc by simp
    then show "phase x ops (files w) (marker w) = (Inr (), w\<lparr>logged := []\<rparr>)"
      using e by (cases w) simp
  qed
  show ?thesis
  proof (cases "truthy dd")
    case False
    let ?w = "\<lparr>data = Map.empty, files = fs(statefile := None), marker = m, logged = []\<rparr>"
    have sc: "State_clear \<lparr>data = d1, files = fs, marker = m, logged = []\<rparr> = (Inr (), ?w)"
      using assms(3) by (simp add: State_clear_ok)
    have rc: "run_clean ?init = State_clear \<lparr>data = d1, files = fs, marker = m, logged = []\<rparr>"
      using sd False by (simp add: run_clean_def)
    have p: "phase x ops fs m = (Inr (), ?w)"
      unfolding ph i using rc sc by simp
    have s: "phase x ops (files ?w) (marker ?w) = (Inr (), ?w\<lparr>logged := []\<rparr>)"
      by (rule second) simp_all
    from p s sd False show ?thesis by (simp add: State_read_def)
  next
    case True
    with assms(4) sd obtain t where t: "dd = JStr t" and dir: "fs t = Some Dir" by auto
    let ?fs1 = "\<lambda>p. if under t p \<and> fs (entry_of t p) = Some Dir then None else fs p"
    let ?w = "\<lparr>data = Map.empty, files = ?fs1(statefile := None), marker = m,
        logged = [CLEANING_MSG]\<rparr>"
    have nd: "?fs1 statefile \<noteq> Some Dir" using assms(3) by simp
    have sc: "State_clear \<lparr>data = d1, files = ?fs1, marker = m, logged = [CLEANING_MSG]\<rparr>
        = (Inr (), ?w)"
      using nd by (simp add: State_clear_ok)
    have rc: "run_clean ?init
        = State_clear \<lparr>data = d1, files = ?fs1, marker = m, logged = [CLEANING_MSG]\<rparr>"
      using sd True t dir by (simp add: run_clean_def clear_dir_def)
    have p: "phase x ops fs m = (Inr (), ?w)"
      unfolding ph i using rc sc by simp
    have s: "phase x ops (files ?w) (marker ?w) = (Inr (), ?w\<lparr>logged := []\<rparr>)"
      by (rule second) simp_all
    have e: "\<forall>t' p. truthy (fst (state_datadir d)) \<and> fst (state_datadir d) = JStr t' \<and> under t' p
                 \<and> fs (entry_of t' p) = Some Dir \<longrightarrow> files ?w p = None"
      using sd t by simp
    have k: "\<forall>t' p. truthy (fst (state_datadir d)) \<and> fst (state_datadir d) = JStr t' \<and> under t' p
                 \<and> fs (entry_of t' p) \<noteq> Some Dir \<and> p \<noteq> statefile \<longrightarrow> files ?w p = fs p"
      using sd t by simp
    have r: "State_read (files ?w) = Inr Map.empty" by (simp add: State_read_def)
    from p s e k r show ?thesis by simp
  qed
qed

subsection \<open>The download action\<close>

lemma getprop_setprop_same [simp]: "fst (getprop sec opt (setprop sec opt v d)) = v"
  by (simp add: getprop_def setprop_def)

lemma getprop_setprop_other [simp]:
  "sec \<noteq> sec' \<or> opt \<noteq> opt' \<Longrightarrow>
     fst (getprop sec opt (setprop sec' opt' v d)) = fst (getprop sec opt d)"
  by (auto simp: getprop_def setprop_def Let_def split: option.splits)

lemma run_download_ok:
  assumes "run_download x ops w = (Inr (), w1)"
  shows "State_read (files w1) = Inr (data w1)"
    and "data w1 = setprops [(''download'', ''status'', JStr ''downloading''),
                     (''download'', ''releasever'', of_opt (conf_releasever x)),
                     (''download'', ''datadir'', JStr (datadir ops))] (data w)"
proof -
  let ?ms = "[(''download'', ''status'', JStr ''downloading''),
              (''download'', ''releasever'', of_opt (conf_releasever x)),
              (''download'', ''datadir'', JStr (datadir ops))]"
  from assms have mk: "marking x = None"
    by (cases "marking x") (simp_all add: run_download_def)
  obtain r fs1 where e: "(if datadir ops = DEFAULT_DATADIR then ensure_dir (datadir ops) (files w)
                 else (Inr (), files w)) = (r, fs1)"
    by (cases "if datadir ops = DEFAULT_DATADIR then ensure_dir (datadir ops) (files w)
                 else (Inr (), files w)")
  from assms mk e have r: "r = Inr ()"
    by (cases r) (simp_all add: run_download_def)
  from assms mk e r
  have ws: "with_state (mutations ?ms None) (w\<lparr>files := fs1\<rparr>) = (Inr (), w1)"
    by (simp add: run_download_def)
  then have ok: "fst (State_write (setprops ?ms (data w)) fs1) = Inr ()"
    and w1: "w1 = w\<lparr>data := setprops ?ms (data w),
                    files := snd (State_write (setprops ?ms (data w)) fs1)\<rparr>"
    by (simp_all add: with_state_mutations_None)
  have "State_write (setprops ?ms (data w)) fs1 = (Inr (), files w1)"
    using ok w1 by (cases "State_write (setprops ?ms (data w)) fs1") simp
  then have "State_read (files w1) = Inr (setprops ?ms (data w))"
    by (rule State_read_written)
  then show "State_read (files w1) = Inr (data w1)" using w1 by simp
  show "data w1 = setprops ?ms (data w)" using w1 by simp
qed

lemma phase_start_download:
  assumes "action ops = Download" and "phase_start x ops fs m = (Inr (), w1)"
  shows "\<exists>w. run_download x ops w = (Inr (), w1)"
proof -
  obtain r2 w2 where c: "phase_check x ops fs m = (r2, w2)"
    by (cases "phase_check x ops fs m")
  show ?thesis
  proof (cases r2)
    case (Inl e)
    with c assms(2) show ?thesis by (simp add: phase_start_def)
  next
    case (Inr u)
    with c assms have "run_download x ops w2 = (Inr (), w1)"
      by (simp add: phase_start_def run_def)
    then show ?thesis by blast
  qed
qed

text \<open>
  C1, amended. \<open>run_download\<close> commits the status \<^verbatim>\<open>downloading\<close>, the release
  version and the data directory before the transaction. When the transaction then
  fails, or its install set has no package whose name starts with \<^verbatim>\<open>kernel\<close>,
  the run ends with an error and \<open>transaction_download\<close> commits nothing: the world is
  the one that \<open>run_download\<close> left. The persisted status is \<^verbatim>\<open>downloading\<close> then,
  whatever it was before the run, and never \<^verbatim>\<open>complete\<close>.
\<close>

theorem C1_failed_download_commits_no_completion:
  assumes "action ops = Download"
    and "phase_start x ops fs m = (Inr (), w1)"
    and "case transaction x of
           Inl e \<Rightarrow> True
         | Inr downloads \<Rightarrow> \<not> list_ex (\<lambda>name. startswith name ''kernel'') downloads"
  shows "\<exists>e. phase_finish x ops w1 = (Inl e, w1) \<and> phase x ops fs m = (Inl e, w1)
           \<and> persisted w1 = Inr (data w1)
           \<and> persisted_field ''download'' ''status'' (files w1) = Inr (JStr ''downloading'')
           \<and> persisted_field ''download'' ''releasever'' (files w1)
               = Inr (of_opt (conf_releasever x))
           \<and> persisted_field ''download'' ''datadir'' (files w1) = Inr (JStr (datadir ops))"
proof -
  from phase_start_download [OF assms(1,2)]
  obtain w where rd: "run_download x ops w = (Inr (), w1)" by blast
  note p = run_download_ok [OF rd]
  have f1: "persisted_field ''download'' ''status'' (files w1) = Inr (JStr ''downloading'')"
    and f2: "persisted_field ''download'' ''releasever'' (files w1)
               = Inr (of_opt (conf_releasever x))"
    and f3: "persisted_field ''download'' ''datadir'' (files w1) = Inr (JStr (datadir ops))"
    using p by (simp_all add: persisted_field_def)
  have "\<exists>e. phase_finish x ops w1 = (Inl e, w1)"
    using assms(1,3)
    by (cases "transaction x")
      (simp_all add: phase_finish_def run_transaction_def transaction_download_def)
  then obtain e where fin: "phase_finish x ops w1 = (Inl e, w1)" by blast
  have "phase x ops fs m = (Inl e, w1)"
    using assms(2) fin by (simp add: phase_def)
  with fin p(1) f1 f2 f3 show ?thesis by (auto simp: persisted_def)
qed

theorem C1_failed_download_commits_no_completion_witness:
  "action (opts_for Download) = Download
   \<and> fst (phase_start ext_no_kernel (opts_for Download) fs_base NoMarker) = Inr ()
   \<and> transaction ext_no_kernel = Inr [''bash'', ''glibc'']
   \<and> \<not> list_ex (\<lambda>name. startswith name ''kernel'') [''bash'', ''glibc'']
   \<and> (\<exists>e. phase ext_no_kernel (opts_for Download) fs_base NoMarker
              = (Inl e, snd (phase_start ext_no_kernel (opts_for Download) fs_base NoMarker)))
   \<and> persisted_field ''download'' ''status''
        (files (snd (phase_start ext_no_kernel (opts_for Download) fs_base NoMarker)))
       = Inr (JStr ''downloading'')"
proof -
  let ?w1 = "snd (phase_start ext_no_kernel (opts_for Download) fs_base NoMarker)"
  have h1: "action (opts_for Download) = Download" by (simp add: opts_for_def)
  have s: "fst (phase_start ext_no_kernel (opts_for Download) fs_base NoMarker) = Inr ()"
    by (simp add: phase_start_def phase_check_def State_init_def State_read_def fs_base_def
        statefile_def opts_for_def configure_def doCheck_def check_download_def ext_no_kernel_def
        ext_ok_def checkReleaseVer_def checkDataDir_def os_path_exists_def os_path_isdir_def
        DEFAULT_DATADIR_def run_def run_download_def ensure_dir_def path_chain_def
        with_state_mutations_None State_write_def statedir_def open_w_def)
  then have h2: "phase_start ext_no_kernel (opts_for Download) fs_base NoMarker = (Inr (), ?w1)"
    by (cases "phase_start ext_no_kernel (opts_for Download) fs_base NoMarker") simp
  have t: "transaction ext_no_kernel = Inr [''bash'', ''glibc'']"
    by (simp add: ext_no_kernel_def)
  have k: "\<not> list_ex (\<lambda>name. startswith name ''kernel'') [''bash'', ''glibc'']"
    by (simp add: startswith_def)
  have h3: "case transaction ext_no_kernel of
           Inl e \<Rightarrow> True
         | Inr downloads \<Rightarrow> \<not> list_ex (\<lambda>name. startswith name ''kernel'') downloads"
    using t k by simp
  from C1_failed_download_commits_no_completion [OF h1 h2 h3] h1 s t k
  show ?thesis by auto
qed

text \<open>
  The claim as it stands fails on a system that has no state yet: the status that
  the next run loads is unset before the download, and \<^verbatim>\<open>downloading\<close> after the
  download that found no kernel package.
\<close>

theorem C1_failed_download_counterexample:
  "fst (phase ext_no_kernel (opts_for Download) fs_base NoMarker) = Inl (DnfError NO_KERNEL_MSG)
   \<and> persisted_field ''download'' ''status'' fs_base = Inr JNull
   \<and> persisted_field ''download'' ''status''
        (files (snd (phase ext_no_kernel (opts_for Download) fs_base NoMarker)))
       = Inr (JStr ''downloading'')"
proof -
  let ?w1 = "snd (phase_start ext_no_kernel (opts_for Download) fs_base NoMarker)"
  have h1: "action (opts_for Download) = Download" by (simp add: opts_for_def)
  have s: "fst (phase_start ext_no_kernel (opts_for Download) fs_base NoMarker) = Inr ()"
    by (simp add: phase_start_def phase_check_def State_init_def State_read_def fs_base_def
        statefile_def opts_for_def configure_def doCheck_def check_download_def ext_no_kernel_def
        ext_ok_def checkReleaseVer_def checkDataDir_def os_path_exists_def os_path_isdir_def
        DEFAULT_DATADIR_def run_def run_download_def ensure_dir_def path_chain_def
        with_state_mutations_None State_write_def statedir_def open_w_def)
  then have h2: "phase_start ext_no_kernel (opts_for Download) fs_base NoMarker = (Inr (), ?w1)"
    by (cases "phase_start ext_no_kernel (opts_for Download) fs_base NoMarker") simp
  from phase_start_download [OF h1 h2]
  obtain w where rd: "run_download ext_no_kernel (opts_for Download) w = (Inr (), ?w1)" by blast
  note p = run_download_ok [OF rd]
  have a: "persisted_field ''download'' ''status'' (files ?w1) = Inr (JStr ''downloading'')"
    using p by (simp add: persisted_field_def)
  have f: "phase_finish ext_no_kernel (opts_for Download) ?w1 = (Inl (DnfError NO_KERNEL_MSG), ?w1)"
    by (simp add: phase_finish_def opts_for_def ext_no_kernel_def run_transaction_def
        transaction_download_def startswith_def)
  have ph: "phase ext_no_kernel (opts_for Download) fs_base NoMarker
      = (Inl (DnfError NO_KERNEL_MSG), ?w1)"
    unfolding phase_def using f by (subst h2) simp
  have b: "persisted_field ''download'' ''status'' fs_base = Inr JNull"
    by (simp add: persisted_field_def State_read_def fs_base_statefile getprop_def)
  from ph a b show ?thesis by simp
qed










subsection \<open>The reboot and the upgrade action\<close>

lemma flag_path_last: "last (os_path_join t FLAG_NAME) = CHR ''e''"
  by (simp add: os_path_join_def FLAG_NAME_def)

lemma flag_not_statefile: "os_path_join t FLAG_NAME \<noteq> statefile"
proof
  assume "os_path_join t FLAG_NAME = statefile"
  then have "last (os_path_join t FLAG_NAME) = last statefile" by simp
  then show False by (simp add: flag_path_last) (simp add: statefile_def)
qed

lemma flag_not_chain: "os_path_join t FLAG_NAME \<notin> set (path_chain statedir)"
proof
  assume "os_path_join t FLAG_NAME \<in> set (path_chain statedir)"
  then have "last (os_path_join t FLAG_NAME) \<in> last ` set (path_chain statedir)" by (rule imageI)
  then show False by (simp add: flag_path_last) (simp add: path_chain_statedir)
qed

lemma reboot_world [simp]: "snd (reboot x w) = w"
  by (simp add: reboot_def split: option.splits)

lemma run_reboot_ok:
  assumes "run_reboot x w = (Inr (), w')"
  shows "\<exists>t. fst (state_datadir (data w)) = JStr t \<and> marker w = NoMarker
           \<and> marker w' = Link t
           \<and> files w' (os_path_join t FLAG_NAME)
               = Some (File (Text (''RELEASEVER='' @ py_str (fst (state_releasever (data w)))
                   @ newline)))
           \<and> State_read (files w') = Inr (data w')
           \<and> data w' = setprop ''upgrade'' ''status'' (JStr ''ready'')
                 (snd (state_releasever (snd (state_datadir (data w)))))
           \<and> run_reboot (x\<lparr>systemctl_reboot := Some e\<rparr>) w = (Inl e, w')"
proof -
  obtain dd d1 where sd: "state_datadir (data w) = (dd, d1)" by (cases "state_datadir (data w)")
  show ?thesis
  proof (cases dd)
    case JNull
    with sd have "fst (run_reboot x w) = Inl TypeError"
      by (simp add: run_reboot_def os_symlink_def)
    with assms show ?thesis by simp
  next
    case (JBool b)
    with sd have "fst (run_reboot x w) = Inl TypeError"
      by (simp add: run_reboot_def os_symlink_def)
    with assms show ?thesis by simp
  next
    case (JStr t)
    let ?p = "os_path_join t FLAG_NAME"
    show ?thesis
    proof (cases "t = [] \<or> marker w \<noteq> NoMarker")
      case True
      have "fst (run_reboot x w) = Inl OSError"
        using sd JStr True by (auto simp: run_reboot_def os_symlink_def)
      with assms show ?thesis by simp
    next
      case False
      then have t: "t \<noteq> []" and m: "marker w = NoMarker" by simp_all
      show ?thesis
      proof (cases "os_path_isdir (files w) t \<and> files w ?p \<noteq> Some Dir")
        case False
        have "fst (run_reboot x w) = Inl IOError"
          using sd JStr t m False
          by (cases "os_path_isdir (files w) t")
            (simp_all add: run_reboot_def os_symlink_def open_flag_w_def open_w_if)
        with assms show ?thesis by simp
      next
        case True
        obtain rv d2 where sr: "state_releasever d1 = (rv, d2)" by (cases "state_releasever d1")
        let ?f4 = "(files w)(?p \<mapsto> File (Text (''RELEASEVER='' @ py_str rv @ newline)))"
        let ?D = "setprop ''upgrade'' ''status'' (JStr ''ready'') d2"
        let ?W = "w\<lparr>marker := Link t, data := ?D, files := snd (State_write ?D ?f4)\<rparr>"
        have eq: "\<And>y. run_reboot y w =
            (case fst (State_write ?D ?f4) of Inl e \<Rightarrow> (Inl e, ?W) | Inr u \<Rightarrow> reboot y ?W)"
          using sd JStr t m True sr
          by (simp add: run_reboot_def os_symlink_def open_flag_w_def open_w_if
              with_state_mutations_None split: sum.splits)
        have ok: "fst (State_write ?D ?f4) = Inr ()"
          using assms eq [of x] by (cases "fst (State_write ?D ?f4)") simp_all
        have rb: "reboot x ?W = (Inr (), w')" using assms eq [of x] ok by simp
        then have w': "w' = ?W" using reboot_world [of x ?W] by simp
        have sw: "State_write ?D ?f4 = (Inr (), files w')"
          using ok w' by (cases "State_write ?D ?f4") simp
        have rd: "State_read (files w') = Inr (data w')"
          using State_read_written [OF sw] w' by simp
        have "files w' ?p = ?f4 ?p"
          using State_write_frame [of ?p ?D ?f4, OF flag_not_chain flag_not_statefile] w'
          by simp
        then have fl: "files w' ?p = Some (File (Text (''RELEASEVER='' @ py_str rv @ newline)))"
          by simp
        have rv: "rv = fst (state_releasever (data w))"
          using sr sd getprop_after_getprop [of "''download''" "''releasever''" "''download''"
              "''datadir''" "data w"]
          by (simp add: state_releasever_def state_datadir_def)
        have dw: "data w' = setprop ''upgrade'' ''status'' (JStr ''ready'')
                 (snd (state_releasever (snd (state_datadir (data w)))))"
          using w' sr sd by simp
        have fail: "run_reboot (x\<lparr>systemctl_reboot := Some e\<rparr>) w = (Inl e, w')"
          using eq [of "x\<lparr>systemctl_reboot := Some e\<rparr>"] ok w' by (simp add: reboot_def)
        have "fst (state_datadir (data w)) = JStr t" using sd JStr by simp
        moreover have "marker w' = Link t" using w' by simp
        ultimately show ?thesis using m fl rv rd dw fail by blast
      qed
    qed
  qed
qed


lemma phase_reboot_run:
  assumes "action ops = Reboot" and "State_read fs = Inr d"
  shows "phase x ops fs m =
     (if fst (download_status d) \<noteq> JStr ''complete'' then
        (Inl (CliError NOT_READY_MSG),
         \<lparr>data = snd (download_status d), files = fs, marker = m, logged = []\<rparr>)
      else if m \<noteq> NoMarker then
        (Inl (CliError SCHEDULED_MSG),
         \<lparr>data = snd (download_status d), files = fs, marker = m, logged = []\<rparr>)
      else run_reboot x \<lparr>data = snd (download_status d), files = fs, marker = m, logged = []\<rparr>)"
proof -
  obtain v d1 where ds: "download_status d = (v, d1)" by (cases "download_status d")
  have c: "phase_check x ops fs m = check_reboot \<lparr>data = d, files = fs, marker = m, logged = []\<rparr>"
    using assms by (simp add: phase_check_def State_init_def configure_def doCheck_def)
  have f: "\<And>w. phase_finish x ops w = (Inr (), w)"
    using assms(1) by (simp add: phase_finish_def)
  have g: "\<And>W. (case run_reboot x W of (Inl e, w) \<Rightarrow> (Inl e, w)
          | (Inr u, w) \<Rightarrow> phase_finish x ops w) = run_reboot x W"
  proof -
    fix W
    obtain r w3 where rr: "run_reboot x W = (r, w3)" by (cases "run_reboot x W")
    show "(case run_reboot x W of (Inl e, w) \<Rightarrow> (Inl e, w)
          | (Inr u, w) \<Rightarrow> phase_finish x ops w) = run_reboot x W"
      using rr f by (cases r) simp_all
  qed
  show ?thesis
    using ds assms(1)
    by (simp add: phase_def phase_start_def c check_reboot_def run_def g)
qed

lemma State_clear_marker: "marker (snd (State_clear w)) = marker w"
  by (simp add: State_clear_def Let_def split: sum.splits)

lemma run_clean_marker: "marker (snd (run_clean w)) = marker w"
  by (simp add: run_clean_def State_clear_marker split: prod.splits jval.splits sum.splits)

lemma transaction_upgrade_marker: "marker (snd (transaction_upgrade x w)) = marker w"
proof (cases "plymouth x")
  case None
  obtain r w1 where c: "run_clean w = (r, w1)" by (cases "run_clean w")
  then have "marker w1 = marker w" using run_clean_marker [of w] by simp
  with None c show ?thesis by (cases r) (simp_all add: transaction_upgrade_def)
next
  case (Some e)
  then show ?thesis by (simp add: transaction_upgrade_def)
qed

lemma run_upgrade_marker:
  assumes "marker w \<noteq> Directory"
  shows "marker (snd (run_upgrade x w)) = NoMarker"
proof -
  let ?w1 = "w\<lparr>marker := NoMarker\<rparr>"
  have u: "unlink_f w = (Inr (), ?w1)"
    using assms by (cases "marker w") (simp_all add: unlink_f_def)
  obtain r w2 where ws: "with_state (mutations [(''upgrade'', ''status'', JStr ''incomplete'')] None) ?w1
      = (r, w2)"
    by (cases "with_state (mutations [(''upgrade'', ''status'', JStr ''incomplete'')] None) ?w1")
  then have m2: "marker w2 = NoMarker" by (auto simp: with_state_mutations_None)
  show ?thesis
  proof (cases r)
    case (Inl e)
    with u ws m2 show ?thesis by (simp add: run_upgrade_def)
  next
    case (Inr v)
    with u ws m2 show ?thesis
      by (simp add: run_upgrade_def split: option.splits prod.splits sum.splits)
  qed
qed

lemma check_upgrade_ok_marker:
  assumes "check_upgrade x w = (Inr (), w2)"
  shows "\<exists>t. marker w2 = Link t"
proof (cases "marker w")
  case (Link t)
  with assms have "marker w2 = Link t"
    by (auto simp: check_upgrade_def os_readlink_def split: prod.splits if_splits)
  then show ?thesis by blast
next
  case NoMarker
  with assms show ?thesis
    by (auto simp: check_upgrade_def os_readlink_def split: prod.splits if_splits)
next
  case PlainFile
  with assms show ?thesis
    by (auto simp: check_upgrade_def os_readlink_def split: prod.splits if_splits)
next
  case Directory
  with assms show ?thesis
    by (auto simp: check_upgrade_def os_readlink_def split: prod.splits if_splits)
qed

lemma phase_check_upgrade:
  assumes "action ops = Upgrade" and "phase_check x ops fs m = (Inr (), w2)"
  shows "\<exists>t. marker w2 = Link t"
proof -
  obtain r0 w0 where i: "State_init fs m = (r0, w0)" by (cases "State_init fs m")
  show ?thesis
  proof (cases r0)
    case (Inl e)
    with i assms(2) show ?thesis by (simp add: phase_check_def)
  next
    case (Inr u)
    obtain dd d1 where sd: "state_datadir (data w0) = (dd, d1)"
      by (cases "state_datadir (data w0)")
    from Inr i assms sd have "check_upgrade x (w0\<lparr>data := d1\<rparr>) = (Inr (), w2)"
      by (simp add: phase_check_def configure_def configure_upgrade_def doCheck_def)
    then show ?thesis by (rule check_upgrade_ok_marker)
  qed
qed

lemma phase_upgrade_marker:
  assumes "action ops = Upgrade" and "phase_check x ops fs m = (Inr (), w2)"
  shows "marker (snd (phase_start x ops fs m)) = NoMarker"
    and "marker (snd (phase x ops fs m)) = NoMarker"
proof -
  from phase_check_upgrade [OF assms] have "marker w2 \<noteq> Directory" by auto
  then have ru: "marker (snd (run_upgrade x w2)) = NoMarker" by (rule run_upgrade_marker)
  have ps: "phase_start x ops fs m = run_upgrade x w2"
    using assms by (simp add: phase_start_def run_def)
  show s: "marker (snd (phase_start x ops fs m)) = NoMarker" using ps ru by simp
  obtain r w3 where r3: "run_upgrade x w2 = (r, w3)" by (cases "run_upgrade x w2")
  with ru have m3: "marker w3 = NoMarker" by simp
  show "marker (snd (phase x ops fs m)) = NoMarker"
  proof (cases r)
    case (Inl e)
    with ps r3 m3 show ?thesis by (simp add: phase_def)
  next
    case (Inr u)
    show ?thesis
    proof (cases "transaction x")
      case (Inl e)
      with Inr ps r3 m3 assms(1) show ?thesis by (simp add: phase_def phase_finish_def)
    next
      case (Inr downloads)
      with \<open>r = Inr u\<close> ps r3 m3 assms(1) transaction_upgrade_marker [of x w3]
      show ?thesis by (simp add: phase_def phase_finish_def run_transaction_def)
    qed
  qed
qed

text \<open>
  C6. A run of the reboot action that succeeds leaves, at the call of the restart,
  a link at \<^verbatim>\<open>/system-update\<close> whose target is the data directory of the state,
  the flag file in that directory with the line \<^verbatim>\<open>RELEASEVER=\<close> and the release
  version of the state, and the committed status \<^verbatim>\<open>ready\<close> of the upgrade (beside
  the data directory, which is the target of the link); a restart that fails finds
  the same world. A run of the upgrade action whose check passed has removed the
  link when \<open>run_upgrade\<close> returns and at the end of the run, whether the steps after
  the removal and the transaction succeed or fail.
\<close>

theorem C6_marker_state_coupling:
  "(action ops = Reboot \<and> State_read fs = Inr d \<and> phase x ops fs m = (Inr (), w') \<longrightarrow>
      (\<exists>t. fst (state_datadir d) = JStr t \<and> marker w' = Link t
          \<and> files w' (os_path_join t FLAG_NAME)
              = Some (File (Text (''RELEASEVER='' @ py_str (fst (state_releasever d)) @ newline)))
          \<and> persisted_field ''upgrade'' ''status'' (files w') = Inr (JStr ''ready'')
          \<and> persisted_field ''download'' ''datadir'' (files w') = Inr (JStr t)
          \<and> phase (x\<lparr>systemctl_reboot := Some e\<rparr>) ops fs m = (Inl e, w')))
   \<and> (action ops = Upgrade \<and> phase_check x ops fs m = (Inr (), w2) \<longrightarrow>
        marker (snd (phase_start x ops fs m)) = NoMarker
        \<and> marker (snd (phase x ops fs m)) = NoMarker)"
proof (intro conjI impI)
  assume a: "action ops = Reboot \<and> State_read fs = Inr d \<and> phase x ops fs m = (Inr (), w')"
  let ?W = "\<lparr>data = snd (download_status d), files = fs, marker = m, logged = []\<rparr>"
  from a have act: "action ops = Reboot" and rd: "State_read fs = Inr d"
    and ph: "phase x ops fs m = (Inr (), w')" by simp_all
  have c: "fst (download_status d) = JStr ''complete''" and m: "m = NoMarker"
    using ph phase_reboot_run [OF act rd, of x m] by (auto split: if_splits)
  then have rr: "run_reboot x ?W = (Inr (), w')"
    using ph phase_reboot_run [OF act rd, of x m] by simp
  from run_reboot_ok [OF rr, of e]
  obtain t where t: "fst (state_datadir (data ?W)) = JStr t" and mk: "marker w' = Link t"
    and fl: "files w' (os_path_join t FLAG_NAME)
               = Some (File (Text (''RELEASEVER='' @ py_str (fst (state_releasever (data ?W)))
                   @ newline)))"
    and sr: "State_read (files w') = Inr (data w')"
    and dw: "data w' = setprop ''upgrade'' ''status'' (JStr ''ready'')
                 (snd (state_releasever (snd (state_datadir (data ?W)))))"
    and fail: "run_reboot (x\<lparr>systemctl_reboot := Some e\<rparr>) ?W = (Inl e, w')"
    by blast
  have t': "fst (state_datadir d) = JStr t"
    using t by (simp add: state_datadir_def download_status_def)
  have fl': "files w' (os_path_join t FLAG_NAME)
      = Some (File (Text (''RELEASEVER='' @ py_str (fst (state_releasever d)) @ newline)))"
    using fl by (simp add: state_releasever_def download_status_def)
  have p1: "persisted_field ''upgrade'' ''status'' (files w') = Inr (JStr ''ready'')"
    using sr dw by (simp add: persisted_field_def)
  have p2: "persisted_field ''download'' ''datadir'' (files w') = Inr (JStr t)"
    using sr dw t'
    by (simp add: persisted_field_def state_releasever_def state_datadir_def download_status_def)
  have p3: "phase (x\<lparr>systemctl_reboot := Some e\<rparr>) ops fs m = (Inl e, w')"
    using fail c m phase_reboot_run [OF act rd, of "x\<lparr>systemctl_reboot := Some e\<rparr>" m] by simp
  from t' mk fl' p1 p2 p3
  show "\<exists>t. fst (state_datadir d) = JStr t \<and> marker w' = Link t
          \<and> files w' (os_path_join t FLAG_NAME)
              = Some (File (Text (''RELEASEVER='' @ py_str (fst (state_releasever d)) @ newline)))
          \<and> persisted_field ''upgrade'' ''status'' (files w') = Inr (JStr ''ready'')
          \<and> persisted_field ''download'' ''datadir'' (files w') = Inr (JStr t)
          \<and> phase (x\<lparr>systemctl_reboot := Some e\<rparr>) ops fs m = (Inl e, w')"
    by blast
next
  assume "action ops = Upgrade \<and> phase_check x ops fs m = (Inr (), w2)"
  then show "marker (snd (phase_start x ops fs m)) = NoMarker"
    using phase_upgrade_marker(1) by blast
next
  assume "action ops = Upgrade \<and> phase_check x ops fs m = (Inr (), w2)"
  then show "marker (snd (phase x ops fs m)) = NoMarker"
    using phase_upgrade_marker(2) by blast
qed


theorem C6_marker_state_coupling_witness:
  "action (opts_for Reboot) = Reboot
   \<and> State_read (fs_with data_complete) = Inr data_complete
   \<and> fst (phase ext_ok (opts_for Reboot) (fs_with data_complete) NoMarker) = Inr ()
   \<and> marker (snd (phase ext_ok (opts_for Reboot) (fs_with data_complete) NoMarker))
       = Link DEFAULT_DATADIR
   \<and> files (snd (phase ext_ok (opts_for Reboot) (fs_with data_complete) NoMarker))
        (os_path_join DEFAULT_DATADIR FLAG_NAME)
       = Some (File (Text (''RELEASEVER=40'' @ newline)))
   \<and> persisted_field ''upgrade'' ''status''
        (files (snd (phase ext_ok (opts_for Reboot) (fs_with data_complete) NoMarker)))
       = Inr (JStr ''ready'')
   \<and> action (opts_for Upgrade) = Upgrade
   \<and> fst (phase_check ext_ok (opts_for Upgrade) (fs_with data_ready) (Link DEFAULT_DATADIR))
       = Inr ()
   \<and> marker (snd (phase ext_ok (opts_for Upgrade) (fs_with data_ready) (Link DEFAULT_DATADIR)))
       = NoMarker"
proof -
  let ?w = "snd (phase ext_ok (opts_for Reboot) (fs_with data_complete) NoMarker)"
  let ?w2 = "snd (phase_check ext_ok (opts_for Upgrade) (fs_with data_ready) (Link DEFAULT_DATADIR))"
  have h1: "action (opts_for Reboot) = Reboot" by (simp add: opts_for_def)
  have h2: "State_read (fs_with data_complete) = Inr data_complete"
    by (simp add: State_read_def fs_with_def)
  have dl: "download_status data_complete
      = (JStr ''complete'', data_complete)"
    by (auto simp: download_status_def getprop_def data_complete_def)
  have sd: "fst (state_datadir data_complete) = JStr DEFAULT_DATADIR"
    by (simp add: state_datadir_def getprop_def data_complete_def)
  have sr: "fst (state_releasever data_complete) = JStr ''40''"
    by (simp add: state_releasever_def getprop_def data_complete_def)
  have sd': "state_datadir data_complete = (JStr DEFAULT_DATADIR, data_complete)"
    by (auto simp: state_datadir_def getprop_def data_complete_def)
  have sr': "state_releasever data_complete = (JStr ''40'', data_complete)"
    by (auto simp: state_releasever_def getprop_def data_complete_def)
  have dflt: "fs_with data_complete DEFAULT_DATADIR = Some Dir"
    by (simp add: fs_with_def statefile_def DEFAULT_DATADIR_def)
  have flg: "fs_with data_complete (os_path_join DEFAULT_DATADIR FLAG_NAME) = None"
    by (simp add: fs_with_def fs_base_def statefile_def DEFAULT_DATADIR_def os_path_join_def
        FLAG_NAME_def)
  have chain: "mkdirs (path_chain statedir)
        ((fs_with data_complete)(os_path_join DEFAULT_DATADIR FLAG_NAME \<mapsto>
           File (Text (''RELEASEVER=40'' @ newline))))
      = (Inr (), (fs_with data_complete)(os_path_join DEFAULT_DATADIR FLAG_NAME \<mapsto>
           File (Text (''RELEASEVER=40'' @ newline))))"
    by (simp add: path_chain_statedir fs_with_def fs_base_def statefile_def DEFAULT_DATADIR_def
        os_path_join_def FLAG_NAME_def)
  have nd: "((fs_with data_complete)(os_path_join DEFAULT_DATADIR FLAG_NAME \<mapsto>
           File (Text (''RELEASEVER=40'' @ newline)))) statefile \<noteq> Some Dir"
    by (simp add: fs_with_def flag_not_statefile)
  have nd': "statefile \<noteq> os_path_join DEFAULT_DATADIR FLAG_NAME"
    using flag_not_statefile [of DEFAULT_DATADIR] by simp
  have h3: "fst (phase ext_ok (opts_for Reboot) (fs_with data_complete) NoMarker) = Inr ()"
    using dl sd' sr' dflt flg chain nd nd'
    by (simp add: phase_reboot_run [OF h1 h2] run_reboot_def os_symlink_def open_flag_w_def
        os_path_isdir_def open_w_if with_state_mutations_None State_write_def ensure_dir_def
        reboot_def ext_ok_def DEFAULT_DATADIR_def)
  then have h3': "phase ext_ok (opts_for Reboot) (fs_with data_complete) NoMarker = (Inr (), ?w)"
    by (cases "phase ext_ok (opts_for Reboot) (fs_with data_complete) NoMarker") simp
  have h4: "action (opts_for Upgrade) = Upgrade" by (simp add: opts_for_def)
  have h5: "fst (phase_check ext_ok (opts_for Upgrade) (fs_with data_ready) (Link DEFAULT_DATADIR))
       = Inr ()"
    by (simp add: phase_check_def State_init_def State_read_def fs_with_def opts_for_def
        configure_def configure_upgrade_def doCheck_def check_upgrade_def os_readlink_def
        upgrade_status_def state_datadir_def getprop_def data_ready_def)
  then have h5': "phase_check ext_ok (opts_for Upgrade) (fs_with data_ready) (Link DEFAULT_DATADIR)
       = (Inr (), ?w2)"
    by (cases "phase_check ext_ok (opts_for Upgrade) (fs_with data_ready) (Link DEFAULT_DATADIR)")
      simp
  note r = C6_marker_state_coupling [of "opts_for Reboot" "fs_with data_complete" data_complete
      ext_ok NoMarker ?w OSError ?w2, THEN conjunct1, rule_format, OF conjI [OF h1 conjI [OF h2 h3']]]
  note u = C6_marker_state_coupling [of "opts_for Upgrade" "fs_with data_ready" data_ready
      ext_ok "Link DEFAULT_DATADIR" ?w OSError ?w2, THEN conjunct2, rule_format,
      OF conjI [OF h4 h5']]
  from r sd sr have r1: "marker ?w = Link DEFAULT_DATADIR"
    and r2: "files ?w (os_path_join DEFAULT_DATADIR FLAG_NAME)
       = Some (File (Text (''RELEASEVER=40'' @ newline)))"
    and r3: "persisted_field ''upgrade'' ''status'' (files ?w) = Inr (JStr ''ready'')"
    by auto
  from u have u1: "marker (snd (phase ext_ok (opts_for Upgrade) (fs_with data_ready)
      (Link DEFAULT_DATADIR))) = NoMarker" by simp
  from h1 h2 h3 r1 r2 r3 h4 h5 u1 show ?thesis by simp
qed

end
